theory Spec2Isabelle
  imports Main "HOL-Library.Sublist"
begin

section \<open>The inventory REST service over its relational store\<close>

text \<open>
  The repository holds two deployments of the same Express application over one
  PostgreSQL schema:
  \<^item> \<^verbatim>\<open>src/inventory_backend.js\<close>: routes addressed by the internal numeric id,
    required-field checks, stock creation as an upsert, every database error answered
    with 500. Its handlers carry the prefix \<open>ib_\<close> below.
  \<^item> \<^verbatim>\<open>src/unnamed/part_000\<close>: routes addressed by the business key, search on the
    list routes, no required-field checks, database errors classified by SQLSTATE.
    Its handlers carry the prefix \<open>p0_\<close>.

  The schema is the DDL of \<open>createTables\<close> in \<^verbatim>\<open>inventory_backend.js\<close>;
  \<^verbatim>\<open>part_000\<close> assumes the same tables to exist already (its header comment, and the
  comments on the foreign key and the unique constraint in its handlers).

  The database is explicit state: a record of three tables (lists of rows, in
  insertion order) and the three SERIAL sequences. A SQL statement is a function from
  the state to a result (an SQLSTATE or the rows the statement reports) and the
  state after it. A handler is a function from the request and the state to the HTTP
  response and the state after it; one handler runs at a time.

  Values: a nullable column, and a JSON field that may be absent or null, is an
  \<open>option\<close>. Body fields that are present are taken to have the JSON type their
  column expects (a string for text columns, an integral number for the quantity),
  and the \<^verbatim>\<open>:id\<close> path segment to be a decimal integer. Connection failures are
  not modelled, nor is the read-only \<^verbatim>\<open>GET /api/dashboard\<close> of \<^verbatim>\<open>part_000\<close>.
\<close>

subsection \<open>Rows and tables\<close>

record product =
  p_id :: int
  p_id_produk :: string
  p_nama_produk :: string
  p_kategori_produk :: "string option"

record stock =
  s_id :: int
  s_id_produk :: "string option"
  s_nama_produk :: string
  s_jumlah_stok :: "int option"

record employee =
  e_id :: int
  e_nama :: string
  e_posisi :: "string option"
  e_email :: "string option"

record db =
  products :: "product list"
  stocks :: "stock list"
  employees :: "employee list"
  products_id_seq :: int
  stock_id_seq :: int
  employees_id_seq :: int

text \<open>The state after \<open>createTables\<close> on an empty database; a sequence holds the
  last value it handed out.\<close>

definition createTables :: db where
  "createTables = \<lparr>products = [], stocks = [], employees = [],
     products_id_seq = 0, stock_id_seq = 0, employees_id_seq = 0\<rparr>"

subsection \<open>Column types and SQLSTATEs\<close>

datatype sqlstate =
    Unique_violation                \<comment> \<open>23505\<close>
  | Foreign_key_violation           \<comment> \<open>23503\<close>
  | Not_null_violation              \<comment> \<open>23502\<close>
  | String_data_right_truncation    \<comment> \<open>22001\<close>
  | Numeric_value_out_of_range      \<comment> \<open>22003\<close>
  | Cardinality_violation           \<comment> \<open>21000\<close>
  | Sequence_generator_limit_exceeded  \<comment> \<open>2200H\<close>

text \<open>Assignment to \<open>VARCHAR(n)\<close>: a longer value is an error unless the excess is
  all spaces, which is cut off.\<close>

definition varchar :: "nat \<Rightarrow> string option \<Rightarrow> sqlstate + string option" where
  "varchar n v =
     (case v of
        None \<Rightarrow> Inr None
      | Some s \<Rightarrow>
          if length s \<le> n then Inr (Some s)
          else if list_all (\<lambda>c. c = CHR '' '') (drop n s) then Inr (Some (take n s))
          else Inl String_data_right_truncation)"

text \<open>A parameter of type \<open>INTEGER\<close>: 32 bits, signed; a value outside is an error.\<close>

definition int4 :: "int option \<Rightarrow> sqlstate + int option" where
  "int4 v =
     (case v of
        None \<Rightarrow> Inr None
      | Some i \<Rightarrow>
          if - 2147483648 \<le> i \<and> i \<le> 2147483647 then Inr (Some i)
          else Inl Numeric_value_out_of_range)"

text \<open>A statement whose parameter does not convert fails with the conversion's
  SQLSTATE and leaves the state as it was.\<close>

definition with_param ::
  "sqlstate + 'a \<Rightarrow> db \<Rightarrow> ('a \<Rightarrow> (sqlstate + 'r) \<times> db) \<Rightarrow> (sqlstate + 'r) \<times> db" where
  "with_param v d f = (case v of Inl e \<Rightarrow> (Inl e, d) | Inr x \<Rightarrow> f x)"

subsection \<open>The SQL statements\<close>

text \<open>
  Every statement first converts its parameters to the types of their columns (an
  error there leaves the state as it was), then runs. \<open>INSERT\<close> takes the next
  value of the sequence of its \<open>SERIAL\<close> column (an \<open>INTEGER\<close> sequence: past
  2147483647 it gives an error and no value), and the value stays taken when a
  constraint rejects the row; the constraints are tested in the order \<open>NOT NULL\<close>,
  unique indexes, foreign key. A statement that fails changes no table.
\<close>

text \<open>\<^verbatim>\<open>INSERT INTO products (id_produk, nama_produk, kategori_produk)
  VALUES ($1, $2, $3) RETURNING *\<close>\<close>

definition insert_products ::
  "string option \<Rightarrow> string option \<Rightarrow> string option \<Rightarrow> db \<Rightarrow> (sqlstate + product list) \<times> db" where
  "insert_products k n c d =
     with_param (varchar 50 k) d (\<lambda>k'.
     with_param (varchar 100 n) d (\<lambda>n'.
     with_param (varchar 100 c) d (\<lambda>c'.
       let i = products_id_seq d + 1;
           d' = d\<lparr>products_id_seq := i\<rparr>
       in if 2147483647 < i then (Inl Sequence_generator_limit_exceeded, d)
          else (case (k', n') of
             (Some key, Some name) \<Rightarrow>
               (if i \<in> set (map p_id (products d))
                   \<or> key \<in> set (map p_id_produk (products d))
                then (Inl Unique_violation, d')
                else
                  (let row = \<lparr>p_id = i, p_id_produk = key, p_nama_produk = name,
                              p_kategori_produk = c'\<rparr>
                   in (Inr [row], d'\<lparr>products := products d @ [row]\<rparr>)))
           | _ \<Rightarrow> (Inl Not_null_violation, d')))))"

text \<open>\<^verbatim>\<open>UPDATE products SET nama_produk = $1, kategori_produk = $2 WHERE ... RETURNING *\<close>,
  for the rows that satisfy \<open>W\<close>. \<open>NOT NULL\<close> is tested on the rows that are
  updated, so not at all when there is none.\<close>

definition update_products ::
  "string option \<Rightarrow> string option \<Rightarrow> (product \<Rightarrow> bool) \<Rightarrow> db \<Rightarrow> (sqlstate + product list) \<times> db" where
  "update_products n c W d =
     with_param (varchar 100 n) d (\<lambda>n'.
     with_param (varchar 100 c) d (\<lambda>c'.
       if filter W (products d) = [] then (Inr [], d)
       else (case n' of
               None \<Rightarrow> (Inl Not_null_violation, d)
             | Some name \<Rightarrow>
                 (let upd = (\<lambda>p. p\<lparr>p_nama_produk := name, p_kategori_produk := c'\<rparr>)
                  in (Inr (map upd (filter W (products d))),
                      d\<lparr>products := map (\<lambda>p. if W p then upd p else p) (products d)\<rparr>)))))"

text \<open>\<^verbatim>\<open>... WHERE id = $3\<close>: the parameter is an \<open>INTEGER\<close>.\<close>

definition update_products_by_id ::
  "string option \<Rightarrow> string option \<Rightarrow> int \<Rightarrow> db \<Rightarrow> (sqlstate + product list) \<times> db" where
  "update_products_by_id n c i d =
     with_param (int4 (Some i)) d (\<lambda>_. update_products n c (\<lambda>p. p_id p = i) d)"

text \<open>\<^verbatim>\<open>... WHERE id_produk = $3\<close>\<close>

definition update_products_by_id_produk ::
  "string option \<Rightarrow> string option \<Rightarrow> string \<Rightarrow> db \<Rightarrow> (sqlstate + product list) \<times> db" where
  "update_products_by_id_produk n c k d = update_products n c (\<lambda>p. p_id_produk p = k) d"

text \<open>\<^verbatim>\<open>DELETE FROM products WHERE ...\<close>, for the rows that satisfy \<open>W\<close>. The foreign key
  of \<open>stock\<close> is declared \<^verbatim>\<open>ON DELETE CASCADE\<close>: the stock rows that reference a deleted
  product go with it.\<close>

definition delete_products :: "(product \<Rightarrow> bool) \<Rightarrow> db \<Rightarrow> (sqlstate + product list) \<times> db" where
  "delete_products W d =
     (let gone = filter W (products d)
      in (Inr gone,
          d\<lparr>products := filter (\<lambda>p. \<not> W p) (products d),
            stocks := filter (\<lambda>s. \<not> list_ex (\<lambda>p. s_id_produk s = Some (p_id_produk p)) gone)
                        (stocks d)\<rparr>))"

definition delete_products_by_id :: "int \<Rightarrow> db \<Rightarrow> (sqlstate + product list) \<times> db" where
  "delete_products_by_id i d =
     with_param (int4 (Some i)) d (\<lambda>_. delete_products (\<lambda>p. p_id p = i) d)"

definition delete_products_by_id_produk :: "string \<Rightarrow> db \<Rightarrow> (sqlstate + product list) \<times> db" where
  "delete_products_by_id_produk k d = delete_products (\<lambda>p. p_id_produk p = k) d"

text \<open>\<^verbatim>\<open>SELECT nama_produk FROM products WHERE id_produk = $1\<close>\<close>

definition select_nama_produk :: "string \<Rightarrow> db \<Rightarrow> string list" where
  "select_nama_produk k d = map p_nama_produk (filter (\<lambda>p. p_id_produk p = k) (products d))"

text \<open>\<^verbatim>\<open>SELECT id, jumlah_stok FROM stock WHERE id_produk = $1\<close>\<close>

definition select_stock :: "string \<Rightarrow> db \<Rightarrow> (int \<times> int option) list" where
  "select_stock k d =
     map (\<lambda>s. (s_id s, s_jumlah_stok s)) (filter (\<lambda>s. s_id_produk s = Some k) (stocks d))"

text \<open>\<^verbatim>\<open>INSERT INTO stock (id_produk, nama_produk, jumlah_stok) VALUES ($1, $2, $3)
  RETURNING *\<close>. The key column is nullable: a null key is neither compared by the
  unique index nor checked by the foreign key. The quantity is given, so the column
  default does not apply.\<close>

definition insert_stock ::
  "string option \<Rightarrow> string option \<Rightarrow> int option \<Rightarrow> db \<Rightarrow> (sqlstate + stock list) \<times> db" where
  "insert_stock k n q d =
     with_param (varchar 50 k) d (\<lambda>k'.
     with_param (varchar 100 n) d (\<lambda>n'.
     with_param (int4 q) d (\<lambda>q'.
       let i = stock_id_seq d + 1;
           d' = d\<lparr>stock_id_seq := i\<rparr>
       in if 2147483647 < i then (Inl Sequence_generator_limit_exceeded, d)
          else (case n' of
             None \<Rightarrow> (Inl Not_null_violation, d')
           | Some name \<Rightarrow>
               (if i \<in> set (map s_id (stocks d))
                   \<or> (k' \<noteq> None \<and> k' \<in> set (map s_id_produk (stocks d)))
                then (Inl Unique_violation, d')
                else if (case k' of None \<Rightarrow> False
                         | Some key \<Rightarrow> key \<notin> set (map p_id_produk (products d)))
                then (Inl Foreign_key_violation, d')
                else
                  (let row = \<lparr>s_id = i, s_id_produk = k', s_nama_produk = name,
                              s_jumlah_stok = q'\<rparr>
                   in (Inr [row], d'\<lparr>stocks := stocks d @ [row]\<rparr>)))))))"

text \<open>\<^verbatim>\<open>UPDATE stock SET jumlah_stok = $1 WHERE ... RETURNING *\<close>\<close>

definition update_stock_jumlah ::
  "int option \<Rightarrow> (stock \<Rightarrow> bool) \<Rightarrow> db \<Rightarrow> (sqlstate + stock list) \<times> db" where
  "update_stock_jumlah q W d =
     with_param (int4 q) d (\<lambda>q'.
       let upd = (\<lambda>s. s\<lparr>s_jumlah_stok := q'\<rparr>)
       in (Inr (map upd (filter W (stocks d))),
           d\<lparr>stocks := map (\<lambda>s. if W s then upd s else s) (stocks d)\<rparr>))"

definition update_stock_by_id :: "int option \<Rightarrow> int \<Rightarrow> db \<Rightarrow> (sqlstate + stock list) \<times> db" where
  "update_stock_by_id q i d =
     with_param (int4 (Some i)) d (\<lambda>_. update_stock_jumlah q (\<lambda>s. s_id s = i) d)"

definition update_stock_by_id_produk ::
  "int option \<Rightarrow> string \<Rightarrow> db \<Rightarrow> (sqlstate + stock list) \<times> db" where
  "update_stock_by_id_produk q k d = update_stock_jumlah q (\<lambda>s. s_id_produk s = Some k) d"

text \<open>\<^verbatim>\<open>UPDATE stock SET nama_produk = $1
  WHERE id_produk = (SELECT id_produk FROM products WHERE id = $2)\<close>.
  The scalar subquery is null when no product has the id, and then no row is
  updated; more than one row from it is an error.\<close>

definition update_stock_nama_produk ::
  "string option \<Rightarrow> int \<Rightarrow> db \<Rightarrow> (sqlstate + stock list) \<times> db" where
  "update_stock_nama_produk n i d =
     with_param (varchar 100 n) d (\<lambda>n'.
     with_param (int4 (Some i)) d (\<lambda>_.
       case filter (\<lambda>p. p_id p = i) (products d) of
         [] \<Rightarrow> (Inr [], d)
       | [p] \<Rightarrow>
           (let W = (\<lambda>s. s_id_produk s = Some (p_id_produk p))
            in if filter W (stocks d) = [] then (Inr [], d)
               else (case n' of
                       None \<Rightarrow> (Inl Not_null_violation, d)
                     | Some name \<Rightarrow>
                         (let upd = (\<lambda>s. s\<lparr>s_nama_produk := name\<rparr>)
                          in (Inr (map upd (filter W (stocks d))),
                              d\<lparr>stocks := map (\<lambda>s. if W s then upd s else s) (stocks d)\<rparr>))))
       | _ \<Rightarrow> (Inl Cardinality_violation, d)))"

text \<open>\<^verbatim>\<open>DELETE FROM stock WHERE ...\<close>\<close>

definition delete_stock :: "(stock \<Rightarrow> bool) \<Rightarrow> db \<Rightarrow> (sqlstate + stock list) \<times> db" where
  "delete_stock W d =
     (Inr (filter W (stocks d)), d\<lparr>stocks := filter (\<lambda>s. \<not> W s) (stocks d)\<rparr>)"

definition delete_stock_by_id :: "int \<Rightarrow> db \<Rightarrow> (sqlstate + stock list) \<times> db" where
  "delete_stock_by_id i d =
     with_param (int4 (Some i)) d (\<lambda>_. delete_stock (\<lambda>s. s_id s = i) d)"

definition delete_stock_by_id_produk :: "string \<Rightarrow> db \<Rightarrow> (sqlstate + stock list) \<times> db" where
  "delete_stock_by_id_produk k d = delete_stock (\<lambda>s. s_id_produk s = Some k) d"

text \<open>\<^verbatim>\<open>INSERT INTO employees (nama, posisi, email) VALUES ($1, $2, $3) RETURNING *\<close>\<close>

definition insert_employees ::
  "string option \<Rightarrow> string option \<Rightarrow> string option \<Rightarrow> db \<Rightarrow> (sqlstate + employee list) \<times> db" where
  "insert_employees n p m d =
     with_param (varchar 100 n) d (\<lambda>n'.
     with_param (varchar 100 p) d (\<lambda>p'.
     with_param (varchar 100 m) d (\<lambda>m'.
       let i = employees_id_seq d + 1;
           d' = d\<lparr>employees_id_seq := i\<rparr>
       in if 2147483647 < i then (Inl Sequence_generator_limit_exceeded, d)
          else (case n' of
             None \<Rightarrow> (Inl Not_null_violation, d')
           | Some name \<Rightarrow>
               (if i \<in> set (map e_id (employees d)) then (Inl Unique_violation, d')
                else
                  (let row = \<lparr>e_id = i, e_nama = name, e_posisi = p', e_email = m'\<rparr>
                   in (Inr [row], d'\<lparr>employees := employees d @ [row]\<rparr>)))))))"

text \<open>\<^verbatim>\<open>UPDATE employees SET nama = $1, posisi = $2, email = $3 WHERE id = $4 RETURNING *\<close>\<close>

definition update_employees_by_id ::
  "string option \<Rightarrow> string option \<Rightarrow> string option \<Rightarrow> int \<Rightarrow> db
     \<Rightarrow> (sqlstate + employee list) \<times> db" where
  "update_employees_by_id n p m i d =
     with_param (varchar 100 n) d (\<lambda>n'.
     with_param (varchar 100 p) d (\<lambda>p'.
     with_param (varchar 100 m) d (\<lambda>m'.
     with_param (int4 (Some i)) d (\<lambda>_.
       if filter (\<lambda>r. e_id r = i) (employees d) = [] then (Inr [], d)
       else (case n' of
               None \<Rightarrow> (Inl Not_null_violation, d)
             | Some name \<Rightarrow>
                 (let upd = (\<lambda>r. r\<lparr>e_nama := name, e_posisi := p', e_email := m'\<rparr>)
                  in (Inr (map upd (filter (\<lambda>r. e_id r = i) (employees d))),
                      d\<lparr>employees :=
                          map (\<lambda>r. if e_id r = i then upd r else r) (employees d)\<rparr>)))))))"

text \<open>\<^verbatim>\<open>DELETE FROM employees WHERE id = $1\<close>\<close>

definition delete_employees_by_id :: "int \<Rightarrow> db \<Rightarrow> (sqlstate + employee list) \<times> db" where
  "delete_employees_by_id i d =
     with_param (int4 (Some i)) d (\<lambda>_.
       (Inr (filter (\<lambda>r. e_id r = i) (employees d)),
        d\<lparr>employees := filter (\<lambda>r. e_id r \<noteq> i) (employees d)\<rparr>))"

subsection \<open>Pattern matching: \<open>ILIKE\<close>\<close>

text \<open>
  \<open>like t p\<close> is \<^verbatim>\<open>t LIKE p\<close>: in the pattern \<open>%\<close> stands for any run of
  characters, \<open>_\<close> for any one character, and a backslash makes the character after
  it stand for itself. PostgreSQL reports an error when matching arrives at a
  backslash that ends the pattern; the patterns of the list routes end in \<open>%\<close>
  (\<open>dangling\<close> below is false of them), and here such a backslash matches nothing.
\<close>

fun like :: "string \<Rightarrow> string \<Rightarrow> bool" where
  "like t [] = (t = [])"
| "like t (c # p) =
     (if c = CHR ''%'' then
        (like t p \<or> (case t of [] \<Rightarrow> False | x # t' \<Rightarrow> like t' (c # p)))
      else if c = CHR 0x5C then
        (case p of
           [] \<Rightarrow> False
         | e # p' \<Rightarrow> (case t of [] \<Rightarrow> False | x # t' \<Rightarrow> x = e \<and> like t' p'))
      else if c = CHR ''_'' then
        (case t of [] \<Rightarrow> False | x # t' \<Rightarrow> like t' p)
      else
        (case t of [] \<Rightarrow> False | x # t' \<Rightarrow> x = c \<and> like t' p))"

fun dangling :: "string \<Rightarrow> bool" where
  "dangling [] = False"
| "dangling [c] = (c = CHR 0x5C)"
| "dangling (c # e # p) = (if c = CHR 0x5C then dangling p else dangling (e # p))"

text \<open>\<open>ILIKE\<close> compares without regard to case: both sides in lower case (ASCII
  letters here).\<close>

definition to_lower :: "char \<Rightarrow> char" where
  "to_lower c =
     (let n = (of_char c :: nat) in if 65 \<le> n \<and> n \<le> 90 then char_of (n + 32) else c)"

definition ilike :: "string \<Rightarrow> string \<Rightarrow> bool" where
  "ilike t p = like (map to_lower t) (map to_lower p)"

text \<open>In a \<open>WHERE\<close> clause a null column makes its \<open>ILIKE\<close> term null, which an
  \<open>OR\<close> treats as a term that is not true.\<close>

definition ilike_null :: "string option \<Rightarrow> string \<Rightarrow> bool" where
  "ilike_null v p = (case v of None \<Rightarrow> False | Some t \<Rightarrow> ilike t p)"

subsection \<open>Requests and responses\<close>

text \<open>The fields a handler may read from \<^verbatim>\<open>req.body\<close>; \<open>None\<close> is a field that is
  absent or null.\<close>

record product_body =
  b_id_produk :: "string option"
  b_nama_produk :: "string option"
  b_kategori_produk :: "string option"

record stock_body =
  sb_id_produk :: "string option"
  sb_nama_produk :: "string option"
  sb_jumlah_stok :: "int option"

record employee_body =
  eb_nama :: "string option"
  eb_posisi :: "string option"
  eb_email :: "string option"

text \<open>The rows of the two stock listings.\<close>

record stock_ib =
  v_id :: int
  v_id_produk :: "string option"
  v_nama_produk :: "string option"     \<comment> \<open>\<^verbatim>\<open>p.nama_produk\<close>\<close>
  v_jumlah_stok :: "int option"

record stock_p0 =
  j_id :: int
  j_id_produk :: "string option"
  j_nama_produk :: string              \<comment> \<open>\<^verbatim>\<open>s.nama_produk\<close>\<close>
  j_jumlah_stok :: "int option"
  j_kategori_produk :: "string option" \<comment> \<open>\<^verbatim>\<open>p.kategori_produk\<close>\<close>

datatype body =
    Send string                        \<comment> \<open>\<^verbatim>\<open>res.send(text)\<close>\<close>
  | No_content                         \<comment> \<open>\<^verbatim>\<open>res.send()\<close>\<close>
  | Undefined                          \<comment> \<open>\<^verbatim>\<open>res.json(undefined)\<close>\<close>
  | Json_products "product list"
  | Json_product product
  | Json_stock_ib "stock_ib list"
  | Json_stock_p0 "stock_p0 list"
  | Json_stock stock
  | Json_employees "employee list"
  | Json_employee employee
  | Json_error string string           \<comment> \<open>\<^verbatim>\<open>{error, message}\<close>\<close>
  | Internal_server_error sqlstate     \<comment> \<open>the body of \<open>handleQueryError\<close>\<close>
  | Deleted_product product            \<comment> \<open>\<^verbatim>\<open>{message, deleted_product}\<close>\<close>
  | Deleted_stock stock
  | Deleted_employee employee

type_synonym response = "nat \<times> body"

text \<open>JavaScript's \<^verbatim>\<open>!v\<close> on a field that is a string when present.\<close>

definition falsy :: "string option \<Rightarrow> bool" where
  "falsy v = (v = None \<or> v = Some [])"

text \<open>\<^verbatim>\<open>res.json(result.rows[0])\<close>\<close>

definition row0 :: "('a \<Rightarrow> body) \<Rightarrow> 'a list \<Rightarrow> body" where
  "row0 J rows = (case rows of [] \<Rightarrow> Undefined | r # _ \<Rightarrow> J r)"

text \<open>\<^verbatim>\<open>stock s LEFT JOIN products p ON s.id_produk = p.id_produk\<close>: a stock row with
  no product stays, with nulls on the product's side.\<close>

definition left_join :: "db \<Rightarrow> (stock \<times> product option) list" where
  "left_join d =
     concat (map (\<lambda>s.
        case filter (\<lambda>p. s_id_produk s = Some (p_id_produk p)) (products d) of
          [] \<Rightarrow> [(s, None)]
        | ps \<Rightarrow> map (\<lambda>p. (s, Some p)) ps) (stocks d))"

subsection \<open>The handlers of \<^verbatim>\<open>inventory_backend.js\<close>\<close>

text \<open>\<^verbatim>\<open>GET /api/products\<close>: \<^verbatim>\<open>SELECT * FROM products ORDER BY id DESC\<close>\<close>

definition ib_get_products :: "db \<Rightarrow> response \<times> db" where
  "ib_get_products d = ((200, Json_products (rev (sort_key p_id (products d)))), d)"

text \<open>\<^verbatim>\<open>POST /api/products\<close>\<close>

definition ib_post_products :: "product_body \<Rightarrow> db \<Rightarrow> response \<times> db" where
  "ib_post_products b d =
     (if falsy (b_id_produk b) \<or> falsy (b_nama_produk b)
      then ((400, Send ''ID Produk dan Nama Produk wajib diisi.''), d)
      else (case insert_products (b_id_produk b) (b_nama_produk b) (b_kategori_produk b) d of
              (Inl e, d') \<Rightarrow>
                ((500, Send ''Gagal menambah produk. Mungkin ID Produk sudah ada.''), d')
            | (Inr rows, d') \<Rightarrow> ((201, row0 Json_product rows), d')))"

text \<open>\<^verbatim>\<open>PUT /api/products/:id\<close>: two statements, the second one the propagation of
  the name to the stock table.\<close>

definition ib_put_products :: "int \<Rightarrow> product_body \<Rightarrow> db \<Rightarrow> response \<times> db" where
  "ib_put_products i b d =
     (case update_products_by_id (b_nama_produk b) (b_kategori_produk b) i d of
        (Inl e, d1) \<Rightarrow> ((500, Send ''Internal Server Error''), d1)
      | (Inr rows, d1) \<Rightarrow>
          (if length rows = 0 then ((404, Send ''Produk tidak ditemukan.''), d1)
           else (case update_stock_nama_produk (b_nama_produk b) i d1 of
                   (Inl e, d2) \<Rightarrow> ((500, Send ''Internal Server Error''), d2)
                 | (Inr _, d2) \<Rightarrow> ((200, row0 Json_product rows), d2))))"

text \<open>\<^verbatim>\<open>DELETE /api/products/:id\<close>\<close>

definition ib_delete_products :: "int \<Rightarrow> db \<Rightarrow> response \<times> db" where
  "ib_delete_products i d =
     (case delete_products_by_id i d of
        (Inl e, d') \<Rightarrow> ((500, Send ''Internal Server Error''), d')
      | (Inr rows, d') \<Rightarrow>
          (if length rows = 0 then ((404, Send ''Produk tidak ditemukan.''), d')
           else ((204, No_content), d')))"

text \<open>\<^verbatim>\<open>GET /api/stock\<close>: the name in the listing is the product's,
  \<^verbatim>\<open>p.nama_produk\<close>, in the order \<^verbatim>\<open>s.id DESC\<close>.\<close>

definition select_stock_ib :: "db \<Rightarrow> stock_ib list" where
  "select_stock_ib d =
     map (\<lambda>(s, p). \<lparr>v_id = s_id s, v_id_produk = s_id_produk s,
                      v_nama_produk = map_option p_nama_produk p,
                      v_jumlah_stok = s_jumlah_stok s\<rparr>)
       (rev (sort_key (\<lambda>(s, p). s_id s) (left_join d)))"

definition ib_get_stock :: "db \<Rightarrow> response \<times> db" where
  "ib_get_stock d = ((200, Json_stock_ib (select_stock_ib d)), d)"

text \<open>\<^verbatim>\<open>POST /api/stock\<close>: the upsert. The guard
  \<^verbatim>\<open>!id_produk || typeof jumlah_stok !== "number"\<close> holds when the key is absent or
  empty or the quantity is absent. The body's \<open>nama_produk\<close> is not read.
  \<^verbatim>\<open>existingStock.rows[0].jumlah_stok + jumlah_stok\<close> adds a null quantity as 0.\<close>

definition ib_post_stock :: "stock_body \<Rightarrow> db \<Rightarrow> response \<times> db" where
  "ib_post_stock b d =
     (case (sb_id_produk b, sb_jumlah_stok b) of
        (Some id_produk, Some jumlah_stok) \<Rightarrow>
          (if id_produk = [] then ((400, Send ''ID Produk dan Jumlah Stok wajib diisi.''), d)
           else
             (case select_nama_produk id_produk d of
                [] \<Rightarrow> ((404, Send ''Produk terkait tidak ditemukan.''), d)
              | nama_produk # _ \<Rightarrow>
                  (case
                     (case select_stock id_produk d of
                        (_, q) # _ \<Rightarrow>
                          update_stock_by_id_produk
                            (Some ((case q of None \<Rightarrow> 0 | Some n \<Rightarrow> n) + jumlah_stok))
                            id_produk d
                      | [] \<Rightarrow> insert_stock (Some id_produk) (Some nama_produk) (Some jumlah_stok) d)
                   of
                     (Inl e, d') \<Rightarrow> ((500, Send ''Gagal menambah/memperbarui stok.''), d')
                   | (Inr rows, d') \<Rightarrow> ((201, row0 Json_stock rows), d'))))
      | _ \<Rightarrow> ((400, Send ''ID Produk dan Jumlah Stok wajib diisi.''), d))"

text \<open>\<^verbatim>\<open>PUT /api/stock/:id\<close>\<close>

definition ib_put_stock :: "int \<Rightarrow> stock_body \<Rightarrow> db \<Rightarrow> response \<times> db" where
  "ib_put_stock i b d =
     (case update_stock_by_id (sb_jumlah_stok b) i d of
        (Inl e, d') \<Rightarrow> ((500, Send ''Internal Server Error''), d')
      | (Inr rows, d') \<Rightarrow>
          (if length rows = 0 then ((404, Send ''Stok tidak ditemukan.''), d')
           else ((200, row0 Json_stock rows), d')))"

text \<open>\<^verbatim>\<open>DELETE /api/stock/:id\<close>\<close>

definition ib_delete_stock :: "int \<Rightarrow> db \<Rightarrow> response \<times> db" where
  "ib_delete_stock i d =
     (case delete_stock_by_id i d of
        (Inl e, d') \<Rightarrow> ((500, Send ''Internal Server Error''), d')
      | (Inr rows, d') \<Rightarrow>
          (if length rows = 0 then ((404, Send ''Stok tidak ditemukan.''), d')
           else ((204, No_content), d')))"

text \<open>\<^verbatim>\<open>GET /api/employees\<close>\<close>

definition ib_get_employees :: "db \<Rightarrow> response \<times> db" where
  "ib_get_employees d = ((200, Json_employees (rev (sort_key e_id (employees d)))), d)"

text \<open>\<^verbatim>\<open>POST /api/employees\<close>\<close>

definition ib_post_employees :: "employee_body \<Rightarrow> db \<Rightarrow> response \<times> db" where
  "ib_post_employees b d =
     (if falsy (eb_nama b) \<or> falsy (eb_posisi b)
      then ((400, Send ''Nama dan Posisi wajib diisi.''), d)
      else (case insert_employees (eb_nama b) (eb_posisi b) (eb_email b) d of
              (Inl e, d') \<Rightarrow> ((500, Send ''Gagal menambah karyawan.''), d')
            | (Inr rows, d') \<Rightarrow> ((201, row0 Json_employee rows), d')))"

text \<open>\<^verbatim>\<open>PUT /api/employees/:id\<close>\<close>

definition ib_put_employees :: "int \<Rightarrow> employee_body \<Rightarrow> db \<Rightarrow> response \<times> db" where
  "ib_put_employees i b d =
     (case update_employees_by_id (eb_nama b) (eb_posisi b) (eb_email b) i d of
        (Inl e, d') \<Rightarrow> ((500, Send ''Internal Server Error''), d')
      | (Inr rows, d') \<Rightarrow>
          (if length rows = 0 then ((404, Send ''Karyawan tidak ditemukan.''), d')
           else ((200, row0 Json_employee rows), d')))"

text \<open>\<^verbatim>\<open>DELETE /api/employees/:id\<close>\<close>

definition ib_delete_employees :: "int \<Rightarrow> db \<Rightarrow> response \<times> db" where
  "ib_delete_employees i d =
     (case delete_employees_by_id i d of
        (Inl e, d') \<Rightarrow> ((500, Send ''Internal Server Error''), d')
      | (Inr rows, d') \<Rightarrow>
          (if length rows = 0 then ((404, Send ''Karyawan tidak ditemukan.''), d')
           else ((204, No_content), d')))"

subsection \<open>The handlers of \<^verbatim>\<open>part_000\<close>\<close>

text \<open>\<open>handleQueryError\<close>: status 500; the message text, which quotes the driver's
  error message, is left out of the body.\<close>

definition handleQueryError :: "sqlstate \<Rightarrow> response" where
  "handleQueryError error = (500, Internal_server_error error)"

text \<open>The search parameter of the list routes: \<^verbatim>\<open>if (search)\<close> is false for an absent
  and for an empty parameter, and the query then has no \<open>WHERE\<close>; otherwise the
  pattern is \<^verbatim>\<open>`%${search}%`\<close>. Without \<open>ORDER BY\<close> the rows come in table order.\<close>

definition search_pattern :: "string \<Rightarrow> string" where
  "search_pattern search = CHR ''%'' # search @ ''%''"

text \<open>\<^verbatim>\<open>GET /api/products\<close>:
  \<^verbatim>\<open>WHERE nama_produk ILIKE $1 OR kategori_produk ILIKE $1 OR id_produk ILIKE $1\<close>\<close>

definition product_matches :: "string \<Rightarrow> product \<Rightarrow> bool" where
  "product_matches search p =
     (ilike (p_nama_produk p) (search_pattern search)
      \<or> ilike_null (p_kategori_produk p) (search_pattern search)
      \<or> ilike (p_id_produk p) (search_pattern search))"

definition p0_get_products :: "string option \<Rightarrow> db \<Rightarrow> response \<times> db" where
  "p0_get_products search d =
     (case search of
        None \<Rightarrow> ((200, Json_products (products d)), d)
      | Some s \<Rightarrow>
          (if s = [] then ((200, Json_products (products d)), d)
           else ((200, Json_products (filter (product_matches s) (products d))), d)))"

text \<open>\<^verbatim>\<open>POST /api/products\<close>: no check of the body; 23505 is answered with 409.\<close>

definition p0_post_products :: "product_body \<Rightarrow> db \<Rightarrow> response \<times> db" where
  "p0_post_products b d =
     (case insert_products (b_id_produk b) (b_nama_produk b) (b_kategori_produk b) d of
        (Inl e, d') \<Rightarrow>
          (if e = Unique_violation
           then ((409, Json_error ''Conflict'' ''ID Produk sudah ada.''), d')
           else (handleQueryError e, d'))
      | (Inr rows, d') \<Rightarrow> ((201, row0 Json_product rows), d'))"

text \<open>\<^verbatim>\<open>PUT /api/products/:id_produk\<close>: one statement, on the products table.\<close>

definition p0_put_products :: "string \<Rightarrow> product_body \<Rightarrow> db \<Rightarrow> response \<times> db" where
  "p0_put_products k b d =
     (case update_products_by_id_produk (b_nama_produk b) (b_kategori_produk b) k d of
        (Inl e, d') \<Rightarrow> (handleQueryError e, d')
      | (Inr rows, d') \<Rightarrow>
          (if length rows = 0
           then ((404, Json_error ''Not Found'' ''Produk tidak ditemukan.''), d')
           else ((200, row0 Json_product rows), d')))"

text \<open>\<^verbatim>\<open>DELETE /api/products/:id_produk\<close>\<close>

definition p0_delete_products :: "string \<Rightarrow> db \<Rightarrow> response \<times> db" where
  "p0_delete_products k d =
     (case delete_products_by_id_produk k d of
        (Inl e, d') \<Rightarrow> (handleQueryError e, d')
      | (Inr rows, d') \<Rightarrow>
          (case rows of
             [] \<Rightarrow> ((404, Json_error ''Not Found'' ''Produk tidak ditemukan.''), d')
           | r # _ \<Rightarrow> ((200, Deleted_product r), d')))"

text \<open>\<^verbatim>\<open>GET /api/stock\<close>: the name in the listing is the stock row's own,
  \<^verbatim>\<open>s.nama_produk\<close>; \<^verbatim>\<open>WHERE s.nama_produk ILIKE $1 OR s.id_produk ILIKE $1\<close>.\<close>

definition stock_matches :: "string \<Rightarrow> stock \<Rightarrow> bool" where
  "stock_matches search s =
     (ilike (s_nama_produk s) (search_pattern search)
      \<or> ilike_null (s_id_produk s) (search_pattern search))"

definition stock_p0_row :: "stock \<times> product option \<Rightarrow> stock_p0" where
  "stock_p0_row = (\<lambda>(s, p).
     \<lparr>j_id = s_id s, j_id_produk = s_id_produk s, j_nama_produk = s_nama_produk s,
      j_jumlah_stok = s_jumlah_stok s,
      j_kategori_produk = (case p of None \<Rightarrow> None | Some r \<Rightarrow> p_kategori_produk r)\<rparr>)"

definition select_stock_p0 :: "string option \<Rightarrow> db \<Rightarrow> stock_p0 list" where
  "select_stock_p0 search d =
     (case search of
        None \<Rightarrow> map stock_p0_row (left_join d)
      | Some x \<Rightarrow>
          (if x = [] then map stock_p0_row (left_join d)
           else map stock_p0_row (filter (\<lambda>(s, p). stock_matches x s) (left_join d))))"

definition p0_get_stock :: "string option \<Rightarrow> db \<Rightarrow> response \<times> db" where
  "p0_get_stock search d = ((200, Json_stock_p0 (select_stock_p0 search d)), d)"

text \<open>\<^verbatim>\<open>POST /api/stock\<close>: the strict variant; the name comes from the body. 23503 is
  answered with 400, 23505 with 409.\<close>

definition p0_post_stock :: "stock_body \<Rightarrow> db \<Rightarrow> response \<times> db" where
  "p0_post_stock b d =
     (case insert_stock (sb_id_produk b) (sb_nama_produk b) (sb_jumlah_stok b) d of
        (Inl e, d') \<Rightarrow>
          (if e = Foreign_key_violation
           then ((400, Json_error ''Bad Request'' ''ID Produk tidak ada di tabel Produk.''), d')
           else if e = Unique_violation
           then ((409, Json_error ''Conflict''
                   ''Stok untuk ID Produk ini sudah ada. Gunakan PUT untuk mengubah jumlah.''), d')
           else (handleQueryError e, d'))
      | (Inr rows, d') \<Rightarrow> ((201, row0 Json_stock rows), d'))"

text \<open>\<^verbatim>\<open>PUT /api/stock/:id_produk\<close>\<close>

definition p0_put_stock :: "string \<Rightarrow> stock_body \<Rightarrow> db \<Rightarrow> response \<times> db" where
  "p0_put_stock k b d =
     (case update_stock_by_id_produk (sb_jumlah_stok b) k d of
        (Inl e, d') \<Rightarrow> (handleQueryError e, d')
      | (Inr rows, d') \<Rightarrow>
          (if length rows = 0
           then ((404, Json_error ''Not Found'' ''Stok untuk produk ini tidak ditemukan.''), d')
           else ((200, row0 Json_stock rows), d')))"

text \<open>\<^verbatim>\<open>DELETE /api/stock/:id_produk\<close>\<close>

definition p0_delete_stock :: "string \<Rightarrow> db \<Rightarrow> response \<times> db" where
  "p0_delete_stock k d =
     (case delete_stock_by_id_produk k d of
        (Inl e, d') \<Rightarrow> (handleQueryError e, d')
      | (Inr rows, d') \<Rightarrow>
          (case rows of
             [] \<Rightarrow> ((404, Json_error ''Not Found'' ''Stok untuk produk ini tidak ditemukan.''), d')
           | r # _ \<Rightarrow> ((200, Deleted_stock r), d')))"

text \<open>\<^verbatim>\<open>GET /api/employees\<close>:
  \<^verbatim>\<open>WHERE nama ILIKE $1 OR posisi ILIKE $1 OR email ILIKE $1\<close>\<close>

definition employee_matches :: "string \<Rightarrow> employee \<Rightarrow> bool" where
  "employee_matches search r =
     (ilike (e_nama r) (search_pattern search)
      \<or> ilike_null (e_posisi r) (search_pattern search)
      \<or> ilike_null (e_email r) (search_pattern search))"

definition p0_get_employees :: "string option \<Rightarrow> db \<Rightarrow> response \<times> db" where
  "p0_get_employees search d =
     (case search of
        None \<Rightarrow> ((200, Json_employees (employees d)), d)
      | Some s \<Rightarrow>
          (if s = [] then ((200, Json_employees (employees d)), d)
           else ((200, Json_employees (filter (employee_matches s) (employees d))), d)))"

text \<open>\<^verbatim>\<open>POST /api/employees\<close>: no check of the body.\<close>

definition p0_post_employees :: "employee_body \<Rightarrow> db \<Rightarrow> response \<times> db" where
  "p0_post_employees b d =
     (case insert_employees (eb_nama b) (eb_posisi b) (eb_email b) d of
        (Inl e, d') \<Rightarrow> (handleQueryError e, d')
      | (Inr rows, d') \<Rightarrow> ((201, row0 Json_employee rows), d'))"

text \<open>\<^verbatim>\<open>PUT /api/employees/:id\<close>\<close>

definition p0_put_employees :: "int \<Rightarrow> employee_body \<Rightarrow> db \<Rightarrow> response \<times> db" where
  "p0_put_employees i b d =
     (case update_employees_by_id (eb_nama b) (eb_posisi b) (eb_email b) i d of
        (Inl e, d') \<Rightarrow> (handleQueryError e, d')
      | (Inr rows, d') \<Rightarrow>
          (if length rows = 0
           then ((404, Json_error ''Not Found'' ''Karyawan tidak ditemukan.''), d')
           else ((200, row0 Json_employee rows), d')))"

text \<open>\<^verbatim>\<open>DELETE /api/employees/:id\<close>\<close>

definition p0_delete_employees :: "int \<Rightarrow> db \<Rightarrow> response \<times> db" where
  "p0_delete_employees i d =
     (case delete_employees_by_id i d of
        (Inl e, d') \<Rightarrow> (handleQueryError e, d')
      | (Inr rows, d') \<Rightarrow>
          (case rows of
             [] \<Rightarrow> ((404, Json_error ''Not Found'' ''Karyawan tidak ditemukan.''), d')
           | r # _ \<Rightarrow> ((200, Deleted_employee r), d')))"

subsection \<open>The two applications\<close>

datatype ib_request =
    Ib_get_products
  | Ib_post_products product_body
  | Ib_put_products int product_body
  | Ib_delete_products int
  | Ib_get_stock
  | Ib_post_stock stock_body
  | Ib_put_stock int stock_body
  | Ib_delete_stock int
  | Ib_get_employees
  | Ib_post_employees employee_body
  | Ib_put_employees int employee_body
  | Ib_delete_employees int

fun ib_app :: "ib_request \<Rightarrow> db \<Rightarrow> response \<times> db" where
  "ib_app Ib_get_products d = ib_get_products d"
| "ib_app (Ib_post_products b) d = ib_post_products b d"
| "ib_app (Ib_put_products i b) d = ib_put_products i b d"
| "ib_app (Ib_delete_products i) d = ib_delete_products i d"
| "ib_app Ib_get_stock d = ib_get_stock d"
| "ib_app (Ib_post_stock b) d = ib_post_stock b d"
| "ib_app (Ib_put_stock i b) d = ib_put_stock i b d"
| "ib_app (Ib_delete_stock i) d = ib_delete_stock i d"
| "ib_app Ib_get_employees d = ib_get_employees d"
| "ib_app (Ib_post_employees b) d = ib_post_employees b d"
| "ib_app (Ib_put_employees i b) d = ib_put_employees i b d"
| "ib_app (Ib_delete_employees i) d = ib_delete_employees i d"

datatype p0_request =
    P0_get_products "string option"
  | P0_post_products product_body
  | P0_put_products string product_body
  | P0_delete_products string
  | P0_get_stock "string option"
  | P0_post_stock stock_body
  | P0_put_stock string stock_body
  | P0_delete_stock string
  | P0_get_employees "string option"
  | P0_post_employees employee_body
  | P0_put_employees int employee_body
  | P0_delete_employees int

fun p0_app :: "p0_request \<Rightarrow> db \<Rightarrow> response \<times> db" where
  "p0_app (P0_get_products q) d = p0_get_products q d"
| "p0_app (P0_post_products b) d = p0_post_products b d"
| "p0_app (P0_put_products k b) d = p0_put_products k b d"
| "p0_app (P0_delete_products k) d = p0_delete_products k d"
| "p0_app (P0_get_stock q) d = p0_get_stock q d"
| "p0_app (P0_post_stock b) d = p0_post_stock b d"
| "p0_app (P0_put_stock k b) d = p0_put_stock k b d"
| "p0_app (P0_delete_stock k) d = p0_delete_stock k d"
| "p0_app (P0_get_employees q) d = p0_get_employees q d"
| "p0_app (P0_post_employees b) d = p0_post_employees b d"
| "p0_app (P0_put_employees i b) d = p0_put_employees i b d"
| "p0_app (P0_delete_employees i) d = p0_delete_employees i d"

text \<open>A history: requests served one after the other, by either deployment, on the
  same database.\<close>

datatype request = Ib ib_request | P0 p0_request

fun app :: "request \<Rightarrow> db \<Rightarrow> response \<times> db" where
  "app (Ib r) d = ib_app r d"
| "app (P0 r) d = p0_app r d"

fun run :: "request list \<Rightarrow> db \<Rightarrow> db" where
  "run [] d = d"
| "run (r # rs) d = run rs (snd (app r d))"

subsection \<open>The constraints of the schema as a predicate on states\<close>

text \<open>Primary keys: ids are distinct and were handed out by the sequence.\<close>

definition product_ids :: "db \<Rightarrow> int list" where
  "product_ids d = map p_id (products d)"

definition stock_ids :: "db \<Rightarrow> int list" where
  "stock_ids d = map s_id (stocks d)"

definition employee_ids :: "db \<Rightarrow> int list" where
  "employee_ids d = map e_id (employees d)"

definition serial_ok :: "int list \<Rightarrow> int \<Rightarrow> bool" where
  "serial_ok ids seq \<longleftrightarrow>
     distinct ids \<and> list_all (\<lambda>i. 1 \<le> i \<and> i \<le> seq) ids \<and> 0 \<le> seq \<and> seq \<le> 2147483647"

definition ids_ok :: "db \<Rightarrow> bool" where
  "ids_ok d \<longleftrightarrow>
     serial_ok (product_ids d) (products_id_seq d)
     \<and> serial_ok (stock_ids d) (stock_id_seq d)
     \<and> serial_ok (employee_ids d) (employees_id_seq d)"

text \<open>\<open>UNIQUE\<close> on both \<open>id_produk\<close> columns (nulls are not compared) and the
  foreign key of \<open>stock\<close>: a key in the stock table is a key in the products table.\<close>

definition product_keys :: "db \<Rightarrow> string list" where
  "product_keys d = map p_id_produk (products d)"

definition stock_keys :: "db \<Rightarrow> string option list" where
  "stock_keys d = map s_id_produk (stocks d)"

definition references_ok :: "db \<Rightarrow> bool" where
  "references_ok d \<longleftrightarrow>
     list_all (\<lambda>k. case k of None \<Rightarrow> True | Some x \<Rightarrow> x \<in> set (product_keys d)) (stock_keys d)"

definition keys_ok :: "db \<Rightarrow> bool" where
  "keys_ok d \<longleftrightarrow>
     distinct (product_keys d)
     \<and> distinct (filter (\<lambda>k. k \<noteq> None) (stock_keys d))
     \<and> references_ok d"

text \<open>Column types: widths of the \<open>VARCHAR\<close> columns, range of the quantity.\<close>

definition width_ok :: "nat \<Rightarrow> string option \<Rightarrow> bool" where
  "width_ok n v = (case v of None \<Rightarrow> True | Some s \<Rightarrow> length s \<le> n)"

definition in_int4 :: "int \<Rightarrow> bool" where
  "in_int4 i \<longleftrightarrow> - 2147483648 \<le> i \<and> i \<le> 2147483647"

definition cols_ok :: "db \<Rightarrow> bool" where
  "cols_ok d \<longleftrightarrow>
     list_all (\<lambda>p. length (p_id_produk p) \<le> 50 \<and> length (p_nama_produk p) \<le> 100
                 \<and> width_ok 100 (p_kategori_produk p)) (products d)
     \<and> list_all (\<lambda>s. width_ok 50 (s_id_produk s) \<and> length (s_nama_produk s) \<le> 100
                 \<and> (case s_jumlah_stok s of None \<Rightarrow> True | Some q \<Rightarrow> in_int4 q)) (stocks d)
     \<and> list_all (\<lambda>r. length (e_nama r) \<le> 100 \<and> width_ok 100 (e_posisi r)
                 \<and> width_ok 100 (e_email r)) (employees d)"

definition wf_db :: "db \<Rightarrow> bool" where
  "wf_db d \<longleftrightarrow> ids_ok d \<and> keys_ok d \<and> cols_ok d"

subsection \<open>Vocabulary of the properties\<close>

text \<open>A parameter converts to its column type.\<close>

definition converts :: "sqlstate + 'a \<Rightarrow> bool" where
  "converts v = (case v of Inl _ \<Rightarrow> False | Inr _ \<Rightarrow> True)"

text \<open>An update or a delete whose identifier matches no row; and the conversion of
  the parameters its statement takes.\<close>

fun targets_no_row :: "request \<Rightarrow> db \<Rightarrow> bool" where
  "targets_no_row (Ib (Ib_put_products i b)) d = (i \<notin> set (product_ids d))"
| "targets_no_row (Ib (Ib_delete_products i)) d = (i \<notin> set (product_ids d))"
| "targets_no_row (Ib (Ib_put_stock i b)) d = (i \<notin> set (stock_ids d))"
| "targets_no_row (Ib (Ib_delete_stock i)) d = (i \<notin> set (stock_ids d))"
| "targets_no_row (Ib (Ib_put_employees i b)) d = (i \<notin> set (employee_ids d))"
| "targets_no_row (Ib (Ib_delete_employees i)) d = (i \<notin> set (employee_ids d))"
| "targets_no_row (P0 (P0_put_products k b)) d = (k \<notin> set (product_keys d))"
| "targets_no_row (P0 (P0_delete_products k)) d = (k \<notin> set (product_keys d))"
| "targets_no_row (P0 (P0_put_stock k b)) d = (Some k \<notin> set (stock_keys d))"
| "targets_no_row (P0 (P0_delete_stock k)) d = (Some k \<notin> set (stock_keys d))"
| "targets_no_row (P0 (P0_put_employees i b)) d = (i \<notin> set (employee_ids d))"
| "targets_no_row (P0 (P0_delete_employees i)) d = (i \<notin> set (employee_ids d))"
| "targets_no_row _ d = False"

fun params_convert :: "request \<Rightarrow> bool" where
  "params_convert (Ib (Ib_put_products i b)) =
     (converts (varchar 100 (b_nama_produk b)) \<and> converts (varchar 100 (b_kategori_produk b))
      \<and> in_int4 i)"
| "params_convert (Ib (Ib_delete_products i)) = in_int4 i"
| "params_convert (Ib (Ib_put_stock i b)) = (converts (int4 (sb_jumlah_stok b)) \<and> in_int4 i)"
| "params_convert (Ib (Ib_delete_stock i)) = in_int4 i"
| "params_convert (Ib (Ib_put_employees i b)) =
     (converts (varchar 100 (eb_nama b)) \<and> converts (varchar 100 (eb_posisi b))
      \<and> converts (varchar 100 (eb_email b)) \<and> in_int4 i)"
| "params_convert (Ib (Ib_delete_employees i)) = in_int4 i"
| "params_convert (P0 (P0_put_products k b)) =
     (converts (varchar 100 (b_nama_produk b)) \<and> converts (varchar 100 (b_kategori_produk b)))"
| "params_convert (P0 (P0_put_stock k b)) = converts (int4 (sb_jumlah_stok b))"
| "params_convert (P0 (P0_put_employees i b)) =
     (converts (varchar 100 (eb_nama b)) \<and> converts (varchar 100 (eb_posisi b))
      \<and> converts (varchar 100 (eb_email b)) \<and> in_int4 i)"
| "params_convert (P0 (P0_delete_employees i)) = in_int4 i"
| "params_convert _ = True"

text \<open>A search parameter without the characters that \<open>LIKE\<close> reads as part of the
  pattern language; and containment without regard to case.\<close>

definition plain :: "string \<Rightarrow> bool" where
  "plain s = list_all (\<lambda>c. c \<noteq> CHR ''%'' \<and> c \<noteq> CHR ''_'' \<and> c \<noteq> CHR 0x5C) s"

definition ci_sublist :: "string \<Rightarrow> string \<Rightarrow> bool" where
  "ci_sublist s t = sublist (map to_lower s) (map to_lower t)"

definition ci_sublist_null :: "string \<Rightarrow> string option \<Rightarrow> bool" where
  "ci_sublist_null s v = (case v of None \<Rightarrow> False | Some t \<Rightarrow> ci_sublist s t)"

text \<open>Every stock row carries the name of a product with its key.\<close>

definition names_in_sync :: "db \<Rightarrow> bool" where
  "names_in_sync d =
     list_all (\<lambda>s. list_ex (\<lambda>p. s_id_produk s = Some (p_id_produk p)
                               \<and> s_nama_produk s = p_nama_produk p) (products d)) (stocks d)"

text \<open>Bodies and histories used as examples.\<close>

definition widget :: product_body where
  "widget = \<lparr>b_id_produk = Some ''P1'', b_nama_produk = Some ''Widget'',
             b_kategori_produk = None\<rparr>"

definition gadget :: product_body where
  "gadget = \<lparr>b_id_produk = None, b_nama_produk = Some ''Gadget'', b_kategori_produk = None\<rparr>"

definition units :: "int \<Rightarrow> stock_body" where
  "units n = \<lparr>sb_id_produk = Some ''P1'', sb_nama_produk = Some ''Widget'',
              sb_jumlah_stok = Some n\<rparr>"

text \<open>Served by \<^verbatim>\<open>part_000\<close>: a product and its stock row, then the product renamed.\<close>

definition stocked_p0 :: db where
  "stocked_p0 = run [P0 (P0_post_products widget), P0 (P0_post_stock (units 5))] createTables"

definition renamed_p0 :: db where
  "renamed_p0 = snd (p0_put_products ''P1'' gadget stocked_p0)"

text \<open>Served by \<^verbatim>\<open>inventory_backend.js\<close>: a product and a stock create of \<open>n\<close>
  units.\<close>

definition stocked_ib :: "int \<Rightarrow> db" where
  "stocked_ib n = run [Ib (Ib_post_products widget), Ib (Ib_post_stock (units n))] createTables"

text \<open>A product whose key fills the 50 characters of its column and ends in a space,
  served by \<^verbatim>\<open>part_000\<close>.\<close>

definition long_key :: string where
  "long_key = replicate 49 (CHR ''K'') @ '' ''"

definition long_product :: db where
  "long_product = run [P0 (P0_post_products \<lparr>b_id_produk = Some long_key,
      b_nama_produk = Some ''Widget'', b_kategori_produk = None\<rparr>)] createTables"

section \<open>The statements keep the constraints of the schema\<close>

lemma varchar_Inr: "varchar n v = Inr w \<Longrightarrow> width_ok n w \<and> (v = None \<longleftrightarrow> w = None)"
  by (auto simp: varchar_def width_ok_def split: option.splits if_splits)

lemma int4_Inr: "int4 v = Inr w \<Longrightarrow> w = v \<and> (case v of None \<Rightarrow> True | Some q \<Rightarrow> in_int4 q)"
  by (auto simp: int4_def in_int4_def split: option.splits if_splits)

lemma snd_with_param:
  "P d \<Longrightarrow> (\<And>x. v = Inr x \<Longrightarrow> P (snd (f x))) \<Longrightarrow> P (snd (with_param v d f))"
  by (auto simp: with_param_def split: sum.splits)

lemma references_ok_iff:
  "references_ok d \<longleftrightarrow> (\<forall>x. Some x \<in> set (stock_keys d) \<longrightarrow> x \<in> set (product_keys d))"
  by (auto simp: references_ok_def list_all_iff split: option.splits)

lemma distinct_keys_filter:
  "distinct (filter P (map f xs)) \<Longrightarrow> distinct (filter P (map f (filter Q xs)))"
  by (induction xs) auto

lemma serial_ok_snoc:
  "serial_ok ids seq \<Longrightarrow> seq + 1 \<le> 2147483647 \<Longrightarrow> serial_ok (ids @ [seq + 1]) (seq + 1)"
  by (auto simp: serial_ok_def list_all_iff)

lemma serial_ok_bump:
  "serial_ok ids seq \<Longrightarrow> seq + 1 \<le> 2147483647 \<Longrightarrow> serial_ok ids (seq + 1)"
  by (auto simp: serial_ok_def list_all_iff)

lemma serial_ok_filter:
  "serial_ok (map f xs) seq \<Longrightarrow> serial_ok (map f (filter Q xs)) seq"
  by (auto simp: serial_ok_def list_all_iff distinct_map_filter)

lemma wf_insert_stock: "wf_db d \<Longrightarrow> wf_db (snd (insert_stock k n q d))"
  unfolding insert_stock_def
  apply (rule snd_with_param [where P = wf_db], assumption)+
  unfolding wf_db_def
  apply (intro conjI)
  subgoal by (auto simp: ids_ok_def Let_def product_ids_def stock_ids_def employee_ids_def 
        intro: serial_ok_snoc serial_ok_bump split: option.splits)
  subgoal by (auto simp: keys_ok_def Let_def references_ok_iff product_keys_def stock_keys_def split: option.splits)
  subgoal by (auto simp: cols_ok_def Let_def dest!: varchar_Inr int4_Inr simp: width_ok_def split: option.splits)
  done


lemma update_products_frame:
  "product_ids (snd (update_products n c W d)) = product_ids d"
  "product_keys (snd (update_products n c W d)) = product_keys d"
  "stocks (snd (update_products n c W d)) = stocks d"
  "employees (snd (update_products n c W d)) = employees d"
  "products_id_seq (snd (update_products n c W d)) = products_id_seq d"
  "stock_id_seq (snd (update_products n c W d)) = stock_id_seq d"
  "employees_id_seq (snd (update_products n c W d)) = employees_id_seq d"
  by (auto simp: update_products_def with_param_def product_keys_def product_ids_def Let_def
      split: sum.splits option.splits)

lemma update_products_cols:
  "cols_ok d \<Longrightarrow> cols_ok (snd (update_products n c W d))"
  unfolding update_products_def
  apply (rule snd_with_param [where P = cols_ok], assumption)+
  by (auto simp: cols_ok_def Let_def list_all_iff dest!: varchar_Inr simp: width_ok_def split: option.splits)

lemma wf_update_products: "wf_db d \<Longrightarrow> wf_db (snd (update_products n c W d))"
  by (simp add: wf_db_def ids_ok_def keys_ok_def references_ok_iff stock_keys_def stock_ids_def
      employee_ids_def update_products_frame update_products_cols)

lemma wf_insert_products: "wf_db d \<Longrightarrow> wf_db (snd (insert_products k n c d))"
  unfolding insert_products_def
  apply (rule snd_with_param [where P = wf_db], assumption)+
  unfolding wf_db_def
  apply (intro conjI)
  subgoal by (auto simp: ids_ok_def Let_def product_ids_def stock_ids_def employee_ids_def
        intro: serial_ok_snoc serial_ok_bump split: option.splits)
  subgoal by (auto simp: keys_ok_def Let_def references_ok_iff product_keys_def stock_keys_def split: option.splits)
  subgoal by (auto simp: cols_ok_def Let_def dest!: varchar_Inr simp: width_ok_def split: option.splits)
  done

lemma wf_insert_employees: "wf_db d \<Longrightarrow> wf_db (snd (insert_employees n p m d))"
  unfolding insert_employees_def
  apply (rule snd_with_param [where P = wf_db], assumption)+
  unfolding wf_db_def
  apply (intro conjI)
  subgoal by (auto simp: ids_ok_def Let_def product_ids_def stock_ids_def employee_ids_def
        intro: serial_ok_snoc serial_ok_bump split: option.splits)
  subgoal by (auto simp: keys_ok_def Let_def references_ok_iff product_keys_def stock_keys_def split: option.splits)
  subgoal by (auto simp: cols_ok_def Let_def dest!: varchar_Inr simp: width_ok_def split: option.splits)
  done

lemma references_ok_delete_products:
  assumes "references_ok d"
  shows "references_ok (snd (delete_products W d))"
  unfolding references_ok_iff
proof (intro allI impI)
  fix k
  assume "Some k \<in> set (stock_keys (snd (delete_products W d)))"
  then obtain s where s: "s \<in> set (stocks d)" "s_id_produk s = Some k"
    and keep: "\<forall>p\<in>set (filter W (products d)). p_id_produk p \<noteq> k"
    by (fastforce simp: delete_products_def Let_def stock_keys_def list_ex_iff)
  from s have "Some k \<in> set (stock_keys d)"
    by (force simp: stock_keys_def)
  with assms obtain p where p: "p \<in> set (products d)" "p_id_produk p = k"
    by (auto simp: references_ok_iff product_keys_def)
  with keep have "\<not> W p"
    by auto
  with p show "k \<in> set (product_keys (snd (delete_products W d)))"
    by (auto simp: delete_products_def Let_def product_keys_def)
qed

lemma wf_delete_products: "wf_db d \<Longrightarrow> wf_db (snd (delete_products W d))"
  unfolding wf_db_def
  apply (intro conjI)
  subgoal by (auto simp: delete_products_def ids_ok_def Let_def product_ids_def stock_ids_def
        employee_ids_def intro: serial_ok_filter)
  subgoal
    unfolding keys_ok_def
    apply (intro conjI)
    subgoal by (auto simp: delete_products_def Let_def product_keys_def distinct_map_filter)
    subgoal by (auto simp: delete_products_def Let_def stock_keys_def intro: distinct_keys_filter)
    subgoal by (auto intro: references_ok_delete_products)
    done
  subgoal by (auto simp: delete_products_def cols_ok_def Let_def list_all_iff)
  done

lemma update_stock_jumlah_frame:
  "products (snd (update_stock_jumlah q W d)) = products d"
  "stock_ids (snd (update_stock_jumlah q W d)) = stock_ids d"
  "stock_keys (snd (update_stock_jumlah q W d)) = stock_keys d"
  "employees (snd (update_stock_jumlah q W d)) = employees d"
  "products_id_seq (snd (update_stock_jumlah q W d)) = products_id_seq d"
  "stock_id_seq (snd (update_stock_jumlah q W d)) = stock_id_seq d"
  "employees_id_seq (snd (update_stock_jumlah q W d)) = employees_id_seq d"
  by (auto simp: update_stock_jumlah_def with_param_def stock_keys_def stock_ids_def Let_def
      split: sum.splits)

lemma update_stock_jumlah_cols:
  "cols_ok d \<Longrightarrow> cols_ok (snd (update_stock_jumlah q W d))"
  unfolding update_stock_jumlah_def
  apply (rule snd_with_param [where P = cols_ok], assumption)+
  by (auto simp: cols_ok_def Let_def list_all_iff dest!: int4_Inr split: option.splits)

lemma wf_update_stock_jumlah: "wf_db d \<Longrightarrow> wf_db (snd (update_stock_jumlah q W d))"
  by (simp add: wf_db_def ids_ok_def keys_ok_def references_ok_iff product_keys_def product_ids_def
      employee_ids_def update_stock_jumlah_frame update_stock_jumlah_cols)

lemma update_stock_nama_produk_frame:
  "products (snd (update_stock_nama_produk n i d)) = products d"
  "stock_ids (snd (update_stock_nama_produk n i d)) = stock_ids d"
  "stock_keys (snd (update_stock_nama_produk n i d)) = stock_keys d"
  "employees (snd (update_stock_nama_produk n i d)) = employees d"
  "products_id_seq (snd (update_stock_nama_produk n i d)) = products_id_seq d"
  "stock_id_seq (snd (update_stock_nama_produk n i d)) = stock_id_seq d"
  "employees_id_seq (snd (update_stock_nama_produk n i d)) = employees_id_seq d"
  by (auto simp: update_stock_nama_produk_def with_param_def stock_keys_def stock_ids_def Let_def
      split: sum.splits list.splits option.splits)

lemma update_stock_nama_produk_cols:
  "cols_ok d \<Longrightarrow> cols_ok (snd (update_stock_nama_produk n i d))"
  unfolding update_stock_nama_produk_def
  apply (rule snd_with_param [where P = cols_ok], assumption)+
  by (auto simp: cols_ok_def Let_def list_all_iff dest!: varchar_Inr simp: width_ok_def
      split: option.splits list.splits)

lemma wf_update_stock_nama_produk: "wf_db d \<Longrightarrow> wf_db (snd (update_stock_nama_produk n i d))"
  by (simp add: wf_db_def ids_ok_def keys_ok_def references_ok_iff product_keys_def product_ids_def
      employee_ids_def update_stock_nama_produk_frame update_stock_nama_produk_cols)

lemma wf_delete_stock: "wf_db d \<Longrightarrow> wf_db (snd (delete_stock W d))"
  unfolding wf_db_def
  apply (intro conjI)
  subgoal by (auto simp: delete_stock_def ids_ok_def product_ids_def stock_ids_def
        employee_ids_def intro: serial_ok_filter)
  subgoal by (auto simp: delete_stock_def keys_ok_def references_ok_iff product_keys_def
        stock_keys_def intro: distinct_keys_filter)
  subgoal by (auto simp: delete_stock_def cols_ok_def list_all_iff)
  done

lemma update_employees_by_id_frame:
  "products (snd (update_employees_by_id n p m i d)) = products d"
  "stocks (snd (update_employees_by_id n p m i d)) = stocks d"
  "employee_ids (snd (update_employees_by_id n p m i d)) = employee_ids d"
  "products_id_seq (snd (update_employees_by_id n p m i d)) = products_id_seq d"
  "stock_id_seq (snd (update_employees_by_id n p m i d)) = stock_id_seq d"
  "employees_id_seq (snd (update_employees_by_id n p m i d)) = employees_id_seq d"
  by (auto simp: update_employees_by_id_def with_param_def employee_ids_def Let_def
      split: sum.splits option.splits)

lemma update_employees_by_id_cols:
  "cols_ok d \<Longrightarrow> cols_ok (snd (update_employees_by_id n p m i d))"
  unfolding update_employees_by_id_def
  apply (rule snd_with_param [where P = cols_ok], assumption)+
  by (auto simp: cols_ok_def Let_def list_all_iff dest!: varchar_Inr simp: width_ok_def
      split: option.splits)

lemma wf_update_employees_by_id:
  "wf_db d \<Longrightarrow> wf_db (snd (update_employees_by_id n p m i d))"
  by (simp add: wf_db_def ids_ok_def keys_ok_def references_ok_iff product_keys_def product_ids_def
      stock_ids_def stock_keys_def update_employees_by_id_frame update_employees_by_id_cols)

lemma wf_delete_employees_by_id: "wf_db d \<Longrightarrow> wf_db (snd (delete_employees_by_id i d))"
  unfolding delete_employees_by_id_def
  apply (rule snd_with_param [where P = wf_db], assumption)+
  unfolding wf_db_def
  apply (intro conjI)
  subgoal by (auto simp: ids_ok_def product_ids_def stock_ids_def employee_ids_def
        intro: serial_ok_filter)
  subgoal by (auto simp: keys_ok_def references_ok_iff product_keys_def stock_keys_def)
  subgoal by (auto simp: cols_ok_def list_all_iff)
  done

lemmas wf_stmt =
  wf_insert_products wf_update_products wf_delete_products wf_insert_stock
  wf_update_stock_jumlah wf_update_stock_nama_produk wf_delete_stock
  wf_insert_employees wf_update_employees_by_id wf_delete_employees_by_id

lemma wf_by_id:
  "wf_db d \<Longrightarrow> wf_db (snd (update_products_by_id n c i d))"
  "wf_db d \<Longrightarrow> wf_db (snd (update_products_by_id_produk n c k d))"
  "wf_db d \<Longrightarrow> wf_db (snd (delete_products_by_id i d))"
  "wf_db d \<Longrightarrow> wf_db (snd (delete_products_by_id_produk k d))"
  "wf_db d \<Longrightarrow> wf_db (snd (update_stock_by_id q i d))"
  "wf_db d \<Longrightarrow> wf_db (snd (update_stock_by_id_produk q k d))"
  "wf_db d \<Longrightarrow> wf_db (snd (delete_stock_by_id i d))"
  "wf_db d \<Longrightarrow> wf_db (snd (delete_stock_by_id_produk k d))"
  by (auto simp: update_products_by_id_def update_products_by_id_produk_def
      delete_products_by_id_def delete_products_by_id_produk_def update_stock_by_id_def
      update_stock_by_id_produk_def delete_stock_by_id_def delete_stock_by_id_produk_def
      intro!: snd_with_param [where P = wf_db] wf_stmt)

section \<open>The handlers keep the constraints of the schema\<close>

lemma wf_createTables: "wf_db createTables"
  by (simp add: wf_db_def ids_ok_def keys_ok_def cols_ok_def createTables_def serial_ok_def
      product_ids_def stock_ids_def employee_ids_def product_keys_def stock_keys_def references_ok_def)

lemma wf_result:
  "insert_products k n c d = (rp, d') \<Longrightarrow> wf_db d \<Longrightarrow> wf_db d'"
  "update_products_by_id n c i d = (rp, d') \<Longrightarrow> wf_db d \<Longrightarrow> wf_db d'"
  "update_products_by_id_produk n c x d = (rp, d') \<Longrightarrow> wf_db d \<Longrightarrow> wf_db d'"
  "delete_products_by_id i d = (rp, d') \<Longrightarrow> wf_db d \<Longrightarrow> wf_db d'"
  "delete_products_by_id_produk x d = (rp, d') \<Longrightarrow> wf_db d \<Longrightarrow> wf_db d'"
  "insert_stock k n q d = (rs, d') \<Longrightarrow> wf_db d \<Longrightarrow> wf_db d'"
  "update_stock_by_id q i d = (rs, d') \<Longrightarrow> wf_db d \<Longrightarrow> wf_db d'"
  "update_stock_by_id_produk q x d = (rs, d') \<Longrightarrow> wf_db d \<Longrightarrow> wf_db d'"
  "update_stock_nama_produk n i d = (rs, d') \<Longrightarrow> wf_db d \<Longrightarrow> wf_db d'"
  "delete_stock_by_id i d = (rs, d') \<Longrightarrow> wf_db d \<Longrightarrow> wf_db d'"
  "delete_stock_by_id_produk x d = (rs, d') \<Longrightarrow> wf_db d \<Longrightarrow> wf_db d'"
  "insert_employees n c m d = (re, d') \<Longrightarrow> wf_db d \<Longrightarrow> wf_db d'"
  "update_employees_by_id n c m i d = (re, d') \<Longrightarrow> wf_db d \<Longrightarrow> wf_db d'"
  "delete_employees_by_id i d = (re, d') \<Longrightarrow> wf_db d \<Longrightarrow> wf_db d'"
  using wf_insert_products [of d k n c] wf_by_id(1) [of d n c i] wf_by_id(2) [of d n c x]
    wf_by_id(3) [of d i] wf_by_id(4) [of d x] wf_insert_stock [of d k n q]
    wf_by_id(5) [of d q i] wf_by_id(6) [of d q x] wf_update_stock_nama_produk [of d n i]
    wf_by_id(7) [of d i] wf_by_id(8) [of d x] wf_insert_employees [of d n c m]
    wf_update_employees_by_id [of d n c m i] wf_delete_employees_by_id [of d i]
  by simp_all

lemma wf_ib_app: "wf_db d \<Longrightarrow> wf_db (snd (ib_app r d))"
proof (cases r)
  case (Ib_put_products i b)
  then show "wf_db d \<Longrightarrow> wf_db (snd (ib_app r d))"
    by (auto simp: ib_put_products_def split: prod.splits sum.splits
        dest: wf_result)
next
  case (Ib_post_stock b)
  then show "wf_db d \<Longrightarrow> wf_db (snd (ib_app r d))"
    by (auto simp: ib_post_stock_def split: prod.splits sum.splits option.splits list.splits
        dest: wf_result)
qed (auto simp: ib_get_products_def ib_post_products_def ib_delete_products_def
      ib_get_stock_def ib_put_stock_def ib_delete_stock_def ib_get_employees_def
      ib_post_employees_def ib_put_employees_def ib_delete_employees_def
      split: prod.splits sum.splits dest: wf_result)

lemma wf_p0_app: "wf_db d \<Longrightarrow> wf_db (snd (p0_app r d))"
  by (cases r)
    (auto simp: p0_get_products_def p0_post_products_def p0_put_products_def
      p0_delete_products_def p0_get_stock_def p0_post_stock_def p0_put_stock_def
      p0_delete_stock_def p0_get_employees_def p0_post_employees_def p0_put_employees_def
      p0_delete_employees_def handleQueryError_def
      split: prod.splits sum.splits option.splits list.splits dest: wf_result)

lemma wf_app: "wf_db d \<Longrightarrow> wf_db (snd (app r d))"
  by (cases r) (simp_all add: wf_ib_app wf_p0_app)

lemma wf_run: "wf_db d \<Longrightarrow> wf_db (run rs d)"
  by (induction rs arbitrary: d) (simp_all add: wf_app)

section \<open>The state a handler leaves\<close>

lemma handler_state:
  "snd (ib_post_products pb d) =
     (if falsy (b_id_produk pb) \<or> falsy (b_nama_produk pb) then d
      else snd (insert_products (b_id_produk pb) (b_nama_produk pb) (b_kategori_produk pb) d))"
  "snd (ib_delete_products i d) = snd (delete_products_by_id i d)"
  "snd (ib_put_stock i sb d) = snd (update_stock_by_id (sb_jumlah_stok sb) i d)"
  "snd (ib_delete_stock i d) = snd (delete_stock_by_id i d)"
  "snd (ib_post_employees eb d) =
     (if falsy (eb_nama eb) \<or> falsy (eb_posisi eb) then d
      else snd (insert_employees (eb_nama eb) (eb_posisi eb) (eb_email eb) d))"
  "snd (ib_put_employees i eb d) =
     snd (update_employees_by_id (eb_nama eb) (eb_posisi eb) (eb_email eb) i d)"
  "snd (ib_delete_employees i d) = snd (delete_employees_by_id i d)"
  "snd (p0_post_products pb d) =
     snd (insert_products (b_id_produk pb) (b_nama_produk pb) (b_kategori_produk pb) d)"
  "snd (p0_put_products k pb d) =
     snd (update_products_by_id_produk (b_nama_produk pb) (b_kategori_produk pb) k d)"
  "snd (p0_delete_products k d) = snd (delete_products_by_id_produk k d)"
  "snd (p0_post_stock sb d) =
     snd (insert_stock (sb_id_produk sb) (sb_nama_produk sb) (sb_jumlah_stok sb) d)"
  "snd (p0_put_stock k sb d) = snd (update_stock_by_id_produk (sb_jumlah_stok sb) k d)"
  "snd (p0_delete_stock k d) = snd (delete_stock_by_id_produk k d)"
  "snd (p0_post_employees eb d) =
     snd (insert_employees (eb_nama eb) (eb_posisi eb) (eb_email eb) d)"
  "snd (p0_put_employees i eb d) =
     snd (update_employees_by_id (eb_nama eb) (eb_posisi eb) (eb_email eb) i d)"
  "snd (p0_delete_employees i d) = snd (delete_employees_by_id i d)"
  by (auto simp: ib_post_products_def ib_delete_products_def ib_put_stock_def
      ib_delete_stock_def ib_post_employees_def ib_put_employees_def ib_delete_employees_def
      p0_post_products_def p0_put_products_def p0_delete_products_def p0_post_stock_def
      p0_put_stock_def p0_delete_stock_def p0_post_employees_def p0_put_employees_def
      p0_delete_employees_def split: prod.splits sum.splits list.splits)

lemma p0_put_products_stocks: "stocks (snd (p0_put_products k b d)) = stocks d"
  by (simp add: handler_state update_products_by_id_produk_def update_products_frame)

section \<open>Renaming a product and the name on its stock row\<close>

text \<open>In \<^verbatim>\<open>inventory_backend.js\<close> the second statement of \<open>PUT /api/products/:id\<close>
  carries the new name to the stock rows of the product (lemma
  \<open>ib_put_products_propagates\<close> below). The handler of \<^verbatim>\<open>part_000\<close> has the first
  statement only and leaves the stock table as it is (lemma \<open>p0_put_products_stocks\<close>),
  while its stock listing shows the name stored there.\<close>

text \<open>C1. Claim: the product update, given a new name, also updates the name in the
  product's stock row, so that a later stock fetch shows the new name. In
  \<^verbatim>\<open>part_000\<close> it does not: with product P1 named Widget and its stock row, the
  request \<open>PUT /api/products/P1\<close> with the name Gadget is answered 200 with the renamed
  product, and the stock listing that follows still shows Widget.\<close>

theorem p0_put_products_stale_name:
  "fst (p0_put_products ''P1'' gadget stocked_p0)
     = (200, Json_product \<lparr>p_id = 1, p_id_produk = ''P1'', p_nama_produk = ''Gadget'',
                            p_kategori_produk = None\<rparr>)
   \<and> select_stock_p0 None renamed_p0
       = [\<lparr>j_id = 1, j_id_produk = Some ''P1'', j_nama_produk = ''Widget'',
           j_jumlah_stok = Some 5, j_kategori_produk = None\<rparr>]
   \<and> map p_nama_produk (products renamed_p0) = [''Gadget'']
   \<and> map s_nama_produk (stocks renamed_p0) = [''Widget'']"
  by code_simp

section \<open>Creating a product twice\<close>

lemma varchar_fits: "width_ok n v \<Longrightarrow> varchar n v = Inr v"
  by (auto simp: varchar_def width_ok_def split: option.splits)

lemma varchar_Some: "length s \<le> n \<Longrightarrow> varchar n (Some s) = Inr (Some s)"
  by (simp add: varchar_def)

lemma int4_fits: "in_int4 i \<Longrightarrow> int4 (Some i) = Inr (Some i)"
  by (simp add: int4_def in_int4_def)

lemma serial_ok_fresh: "serial_ok ids seq \<Longrightarrow> seq + 1 \<notin> set ids"
  by (auto simp: serial_ok_def list_all_iff)

lemma insert_products_ok:
  assumes "ids_ok d" "products_id_seq d + 1 \<le> 2147483647"
    and "length k \<le> 50" "length n \<le> 100" "width_ok 100 c"
    and "k \<notin> set (product_keys d)"
  shows "insert_products (Some k) (Some n) c d =
           (Inr [\<lparr>p_id = products_id_seq d + 1, p_id_produk = k, p_nama_produk = n,
                   p_kategori_produk = c\<rparr>],
            d\<lparr>products_id_seq := products_id_seq d + 1,
              products := products d @
                [\<lparr>p_id = products_id_seq d + 1, p_id_produk = k, p_nama_produk = n,
                   p_kategori_produk = c\<rparr>]\<rparr>)"
proof -
  from assms(1) have "products_id_seq d + 1 \<notin> set (map p_id (products d))"
    using serial_ok_fresh [of "product_ids d" "products_id_seq d"]
    by (simp add: ids_ok_def product_ids_def)
  with assms show ?thesis
    by (simp add: insert_products_def with_param_def varchar_fits varchar_Some Let_def
        product_keys_def)
qed

lemma insert_products_dup:
  assumes "products_id_seq d + 1 \<le> 2147483647"
    and "length k \<le> 50" "length n \<le> 100" "width_ok 100 c"
    and "k \<in> set (product_keys d)"
  shows "insert_products (Some k) (Some n) c d =
           (Inl Unique_violation, d\<lparr>products_id_seq := products_id_seq d + 1\<rparr>)"
  using assms
  by (simp add: insert_products_def with_param_def varchar_fits varchar_Some Let_def
      product_keys_def)

text \<open>C2. Claim: of two product creates with the same business key on a store where the
  key is unused, the first is answered 201 with the created row and the second 409,
  the first row unchanged. As amended: the two requests carry the key and each a name,
  all values within the widths of their columns, and the id sequence has two values
  left; then \<^verbatim>\<open>part_000\<close> answers 201 and 409, and \<^verbatim>\<open>inventory_backend.js\<close> (key
  and names not empty) answers 201 and 500, its answer to every database error; in
  both the products table after the second request is the table after the first.\<close>

theorem post_products_duplicate:
  assumes "wf_db d" "products_id_seq d + 2 \<le> 2147483647"
    and "k \<notin> set (product_keys d)" "length k \<le> 50"
    and "b_id_produk b = Some k" "b_nama_produk b = Some n" "length n \<le> 100"
      "width_ok 100 (b_kategori_produk b)"
    and "b_id_produk b' = Some k" "b_nama_produk b' = Some n'" "length n' \<le> 100"
      "width_ok 100 (b_kategori_produk b')"
    and "row = \<lparr>p_id = products_id_seq d + 1, p_id_produk = k, p_nama_produk = n,
                 p_kategori_produk = b_kategori_produk b\<rparr>"
  shows "fst (p0_post_products b d) = (201, Json_product row)
       \<and> fst (p0_post_products b' (snd (p0_post_products b d)))
           = (409, Json_error ''Conflict'' ''ID Produk sudah ada.'')
       \<and> products (snd (p0_post_products b' (snd (p0_post_products b d)))) = products d @ [row]
       \<and> (k \<noteq> [] \<and> n \<noteq> [] \<and> n' \<noteq> [] \<longrightarrow>
            fst (ib_post_products b d) = (201, Json_product row)
          \<and> fst (ib_post_products b' (snd (ib_post_products b d)))
              = (500, Send ''Gagal menambah produk. Mungkin ID Produk sudah ada.'')
          \<and> products (snd (ib_post_products b' (snd (ib_post_products b d))))
              = products d @ [row])"
proof -
  let ?d1 = "d\<lparr>products_id_seq := products_id_seq d + 1, products := products d @ [row]\<rparr>"
  from assms have ids: "ids_ok d" by (simp add: wf_db_def)
  have first: "insert_products (Some k) (Some n) (b_kategori_produk b) d = (Inr [row], ?d1)"
    using insert_products_ok [OF ids _ assms(4) assms(7) assms(8) assms(3)] assms(2) assms(13)
    by simp
  have "k \<in> set (product_keys ?d1)"
    using assms(13) by (simp add: product_keys_def)
  moreover have "products_id_seq ?d1 + 1 \<le> 2147483647"
    using assms(2) by simp
  ultimately have second:
    "insert_products (Some k) (Some n') (b_kategori_produk b') ?d1 =
       (Inl Unique_violation, ?d1\<lparr>products_id_seq := products_id_seq ?d1 + 1\<rparr>)"
    using insert_products_dup [of ?d1 k n' "b_kategori_produk b'"] assms(4) assms(11) assms(12)
    by blast
  from first second assms(5,6,9,10) show ?thesis
    by (simp add: p0_post_products_def ib_post_products_def falsy_def row0_def)
qed

theorem post_products_duplicate_witness:
  "wf_db createTables
   \<and> fst (p0_post_products widget createTables)
       = (201, Json_product \<lparr>p_id = 1, p_id_produk = ''P1'', p_nama_produk = ''Widget'',
                              p_kategori_produk = None\<rparr>)
   \<and> fst (p0_post_products widget (snd (p0_post_products widget createTables)))
       = (409, Json_error ''Conflict'' ''ID Produk sudah ada.'')
   \<and> fst (ib_post_products widget (snd (ib_post_products widget createTables)))
       = (500, Send ''Gagal menambah produk. Mungkin ID Produk sudah ada.'')
   \<and> products (snd (ib_post_products widget (snd (ib_post_products widget createTables))))
       = [\<lparr>p_id = 1, p_id_produk = ''P1'', p_nama_produk = ''Widget'',
           p_kategori_produk = None\<rparr>]"
  using wf_createTables
    post_products_duplicate [where d = createTables and k = "''P1''" and b = widget
      and b' = widget and n = "''Widget''" and n' = "''Widget''"
      and row = "\<lparr>p_id = 1, p_id_produk = ''P1'', p_nama_produk = ''Widget'',
                  p_kategori_produk = None\<rparr>", OF wf_createTables]
  by (simp add: widget_def createTables_def product_keys_def width_ok_def)

text \<open>The claim as stated fails in \<^verbatim>\<open>inventory_backend.js\<close>: the second create of P1 is
  answered 500.\<close>

theorem ib_post_products_duplicate_500:
  "fst (ib_post_products widget createTables)
     = (201, Json_product \<lparr>p_id = 1, p_id_produk = ''P1'', p_nama_produk = ''Widget'',
                            p_kategori_produk = None\<rparr>)
   \<and> fst (ib_post_products widget (snd (ib_post_products widget createTables)))
       = (500, Send ''Gagal menambah produk. Mungkin ID Produk sudah ada.'')
   \<and> fst (fst (ib_post_products widget (snd (ib_post_products widget createTables)))) \<noteq> 409"
  by code_simp

section \<open>Stock creation as an upsert\<close>

lemma unique_key_filter:
  "distinct (filter (\<lambda>k. k \<noteq> None) (map f xs)) \<Longrightarrow> s \<in> set xs \<Longrightarrow> f s = Some k
   \<Longrightarrow> filter (\<lambda>r. f r = Some k) xs = [s]"
proof (induction xs)
  case Nil
  then show ?case by simp
next
  case (Cons x xs)
  show ?case
  proof (cases "f x = Some k")
    case True
    with Cons.prems(1) have "Some k \<notin> set (map f xs)" by auto
    then have no: "\<forall>r\<in>set xs. f r \<noteq> Some k" by force
    then have none: "filter (\<lambda>r. f r = Some k) xs = []"
      by (simp add: filter_empty_conv)
    from no Cons.prems(2,3) have "s = x" by auto
    with True none show ?thesis by simp
  next
    case False
    with Cons.prems have "s \<in> set xs" by auto
    moreover from Cons.prems(1) have "distinct (filter (\<lambda>k. k \<noteq> None) (map f xs))"
      by (simp split: if_splits)
    ultimately show ?thesis using Cons.IH Cons.prems(3) False by simp
  qed
qed

lemma unique_stock_row:
  "keys_ok d \<Longrightarrow> s \<in> set (stocks d) \<Longrightarrow> s_id_produk s = Some k
   \<Longrightarrow> filter (\<lambda>r. s_id_produk r = Some k) (stocks d) = [s]"
  by (simp add: keys_ok_def stock_keys_def unique_key_filter)

lemma referenced_product:
  assumes "keys_ok d" "s \<in> set (stocks d)" "s_id_produk s = Some k"
  shows "select_nama_produk k d \<noteq> []"
proof -
  from assms(2,3) have "Some k \<in> set (stock_keys d)" by (force simp: stock_keys_def)
  with assms(1) have "k \<in> set (product_keys d)"
    by (simp add: keys_ok_def references_ok_iff)
  then show ?thesis
    by (auto simp: select_nama_produk_def product_keys_def filter_empty_conv)
qed

lemma jumlah_hit:
  "filter (\<lambda>r. s_id_produk r = Some k)
     (map (\<lambda>r. if s_id_produk r = Some k then r\<lparr>s_jumlah_stok := v\<rparr> else r) xs)
   = map (\<lambda>r. r\<lparr>s_jumlah_stok := v\<rparr>) (filter (\<lambda>r. s_id_produk r = Some k) xs)"
  by (induction xs) auto

lemma jumlah_miss:
  "filter (\<lambda>r. s_id_produk r \<noteq> Some k)
     (map (\<lambda>r. if s_id_produk r = Some k then r\<lparr>s_jumlah_stok := v\<rparr> else r) xs)
   = filter (\<lambda>r. s_id_produk r \<noteq> Some k) xs"
  by (induction xs) auto

text \<open>C3. Claim: in \<^verbatim>\<open>inventory_backend.js\<close>, a stock create with quantity \<open>n\<close> for a
  key whose stock row holds quantity \<open>q\<close> leaves a single row for the key with
  quantity \<open>q + n\<close> and returns that row. As amended: when \<open>q + n\<close> lies within the
  range of the \<open>INTEGER\<close> column. The other rows of the table are as they were.\<close>

theorem ib_post_stock_accumulates:
  assumes "keys_ok d" "s \<in> set (stocks d)" "s_id_produk s = Some k" "s_jumlah_stok s = Some q"
    and "k \<noteq> []" "sb_id_produk b = Some k" "sb_jumlah_stok b = Some n" "in_int4 (q + n)"
  shows "fst (ib_post_stock b d) = (201, Json_stock (s\<lparr>s_jumlah_stok := Some (q + n)\<rparr>))
       \<and> filter (\<lambda>r. s_id_produk r = Some k) (stocks (snd (ib_post_stock b d)))
           = [s\<lparr>s_jumlah_stok := Some (q + n)\<rparr>]
       \<and> filter (\<lambda>r. s_id_produk r \<noteq> Some k) (stocks (snd (ib_post_stock b d)))
           = filter (\<lambda>r. s_id_produk r \<noteq> Some k) (stocks d)
       \<and> length (stocks (snd (ib_post_stock b d))) = length (stocks d)"
proof -
  let ?W = "\<lambda>r. s_id_produk r = Some k"
  let ?upd = "\<lambda>r. r\<lparr>s_jumlah_stok := Some (q + n)\<rparr>"
  let ?d' = "d\<lparr>stocks := map (\<lambda>r. if ?W r then ?upd r else r) (stocks d)\<rparr>"
  have one: "filter ?W (stocks d) = [s]"
    using assms(1-3) by (rule unique_stock_row)
  obtain nm nms where prod: "select_nama_produk k d = nm # nms"
    using referenced_product [OF assms(1-3)] by (cases "select_nama_produk k d") auto
  have sel: "select_stock k d = [(s_id s, Some q)]"
    using one assms(4) by (simp add: select_stock_def)
  have upd: "update_stock_by_id_produk (Some (q + n)) k d = (Inr [?upd s], ?d')"
    using one assms(8)
    by (simp add: update_stock_by_id_produk_def update_stock_jumlah_def with_param_def
        int4_fits Let_def)
  have res: "ib_post_stock b d = ((201, Json_stock (?upd s)), ?d')"
    using assms(5-7) prod sel upd by (simp add: ib_post_stock_def row0_def)
  from res one show ?thesis by (simp add: jumlah_hit jumlah_miss)
qed

text \<open>Five units, then three: eight.\<close>

theorem ib_post_stock_accumulates_witness:
  "keys_ok (stocked_ib 5)
   \<and> fst (ib_post_stock (units 3) (stocked_ib 5))
       = (201, Json_stock \<lparr>s_id = 1, s_id_produk = Some ''P1'', s_nama_produk = ''Widget'',
                            s_jumlah_stok = Some 8\<rparr>)
   \<and> filter (\<lambda>r. s_id_produk r = Some ''P1'') (stocks (snd (ib_post_stock (units 3) (stocked_ib 5))))
       = [\<lparr>s_id = 1, s_id_produk = Some ''P1'', s_nama_produk = ''Widget'',
           s_jumlah_stok = Some 8\<rparr>]"
proof -
  have wf: "wf_db (stocked_ib 5)"
    unfolding stocked_ib_def by (rule wf_run [OF wf_createTables])
  then have keys: "keys_ok (stocked_ib 5)" by (simp add: wf_db_def)
  have st: "stocks (stocked_ib 5) = [\<lparr>s_id = 1, s_id_produk = Some ''P1'',
      s_nama_produk = ''Widget'', s_jumlah_stok = Some 5\<rparr>]"
    by code_simp
  from keys show ?thesis
    using ib_post_stock_accumulates [of "stocked_ib 5"
        "\<lparr>s_id = 1, s_id_produk = Some ''P1'', s_nama_produk = ''Widget'', s_jumlah_stok = Some 5\<rparr>"
        "''P1''" 5 "units 3" 3]
    by (simp add: st units_def in_int4_def)
qed

text \<open>The claim as stated fails when the sum leaves the range of the column: the
  database rejects the update, the answer is 500 and the row keeps its quantity.\<close>

theorem ib_post_stock_overflow:
  "stocks (stocked_ib 2147483647)
     = [\<lparr>s_id = 1, s_id_produk = Some ''P1'', s_nama_produk = ''Widget'',
         s_jumlah_stok = Some 2147483647\<rparr>]
   \<and> fst (ib_post_stock (units 1) (stocked_ib 2147483647))
       = (500, Send ''Gagal menambah/memperbarui stok.'')
   \<and> stocks (snd (ib_post_stock (units 1) (stocked_ib 2147483647)))
       = stocks (stocked_ib 2147483647)"
  by code_simp

section \<open>Deleting a product\<close>

lemma set_left_join: "fst ` set (left_join d) = set (stocks d)"
proof -
  have row: "\<And>s. fst ` set (case filter (\<lambda>p. s_id_produk s = Some (p_id_produk p)) (products d) of
                [] \<Rightarrow> [(s, None)] | ps \<Rightarrow> map (\<lambda>p. (s, Some p)) ps) = {s}"
    by (auto simp: image_iff split: list.splits)
  have "fst ` set (left_join d) =
          (\<Union>s\<in>set (stocks d). fst ` set (case filter (\<lambda>p. s_id_produk s = Some (p_id_produk p))
             (products d) of [] \<Rightarrow> [(s, None)] | ps \<Rightarrow> map (\<lambda>p. (s, Some p)) ps))"
    unfolding left_join_def by (simp only: set_concat set_map image_UN image_image)
  also have "\<dots> = (\<Union>s\<in>set (stocks d). {s})" by (simp only: row)
  finally show ?thesis by simp
qed

lemma select_stock_ib_keys: "set (map v_id_produk (select_stock_ib d)) = set (stock_keys d)"
proof -
  have "set (map v_id_produk (select_stock_ib d)) = (\<lambda>x. s_id_produk (fst x)) ` set (left_join d)"
    by (simp add: select_stock_ib_def comp_def case_prod_beta)
  also have "\<dots> = s_id_produk ` (fst ` set (left_join d))" by (simp add: image_image)
  finally show ?thesis by (simp add: set_left_join stock_keys_def)
qed

lemma select_stock_p0_keys: "set (map j_id_produk (select_stock_p0 q d)) \<subseteq> set (stock_keys d)"
proof -
  have key: "\<And>x. j_id_produk (stock_p0_row x) = s_id_produk (fst x)"
    by (simp add: stock_p0_row_def case_prod_beta)
  have "set (map j_id_produk (select_stock_p0 q d)) \<subseteq> (\<lambda>x. s_id_produk (fst x)) ` set (left_join d)"
    by (cases q) (auto simp: select_stock_p0_def key comp_def intro!: rev_image_eqI)
  also have "\<dots> = s_id_produk ` (fst ` set (left_join d))" by (simp add: image_image)
  finally show ?thesis by (simp add: set_left_join stock_keys_def)
qed

lemma delete_products_cascade:
  assumes "p \<in> set (products d)" "W p"
  shows "Some (p_id_produk p) \<notin> set (stock_keys (snd (delete_products W d)))"
    and "p \<notin> set (products (snd (delete_products W d)))"
    and "fst (delete_products W d) = Inr (filter W (products d))"
    and "filter W (products d) \<noteq> []"
  using assms
  by (auto simp: delete_products_def Let_def stock_keys_def list_ex_iff filter_empty_conv)

lemma wf_in_int4:
  assumes "wf_db d" "p \<in> set (products d)"
  shows "in_int4 (p_id p)"
proof -
  from assms have "1 \<le> p_id p \<and> p_id p \<le> products_id_seq d" "products_id_seq d \<le> 2147483647"
    by (auto simp: wf_db_def ids_ok_def serial_ok_def product_ids_def list_all_iff)
  then show ?thesis by (simp add: in_int4_def)
qed

lemma unique_product_by_key:
  assumes "wf_db d" "p \<in> set (products d)"
  shows "filter (\<lambda>r. p_id_produk r = p_id_produk p) (products d) = [p]"
proof -
  from assms(1) have "distinct (map p_id_produk (products d))"
    by (simp add: wf_db_def keys_ok_def product_keys_def)
  then have "distinct (filter (\<lambda>k. k \<noteq> None) (map (Some \<circ> p_id_produk) (products d)))"
    by (simp add: distinct_map comp_def inj_on_def filter_map)
  from unique_key_filter [OF this assms(2), of "p_id_produk p"] show ?thesis by simp
qed


lemma ib_put_products_state:
  "snd (ib_put_products i b d) = snd (update_products_by_id (b_nama_produk b) (b_kategori_produk b) i d)
   \<or> snd (ib_put_products i b d) =
       snd (update_stock_nama_produk (b_nama_produk b) i
             (snd (update_products_by_id (b_nama_produk b) (b_kategori_produk b) i d)))"
  by (auto simp: ib_put_products_def split: prod.splits sum.splits)

lemma ib_post_stock_state:
  "snd (ib_post_stock b d) = d
   \<or> (\<exists>q k. snd (ib_post_stock b d) = snd (update_stock_by_id_produk q k d))
   \<or> (\<exists>k n q. snd (ib_post_stock b d) = snd (insert_stock (Some k) n q d))"
  by (auto simp: ib_post_stock_def split: prod.splits sum.splits option.splits list.splits)
    (metis snd_conv)+

lemma nonnull_ib_app:
  assumes "None \<notin> set (stock_keys d)"
  shows "None \<notin> set (stock_keys (snd (ib_app r d)))"
proof (cases r)
  case (Ib_post_stock b)
  have ins: "\<And>k n q. None \<notin> set (stock_keys (snd (insert_stock (Some k) n q d)))"
    using assms
    by (auto simp: insert_stock_def with_param_def stock_keys_def Let_def
        dest!: varchar_Inr split: sum.splits option.splits)
  have upd: "\<And>q k. None \<notin> set (stock_keys (snd (update_stock_by_id_produk q k d)))"
    using assms by (simp add: update_stock_by_id_produk_def update_stock_jumlah_frame)
  show ?thesis
    using assms Ib_post_stock ins upd ib_post_stock_state [of b d] by auto
next
  case (Ib_put_products i b)
  have 1: "stock_keys (snd (update_products_by_id
               (b_nama_produk b) (b_kategori_produk b) i d)) = stock_keys d"
    by (simp add: update_products_by_id_def with_param_def
        update_products_frame stock_keys_def split: sum.splits)
  have "\<And>n. stock_keys (snd (update_stock_nama_produk n i (snd (update_products_by_id
               (b_nama_produk b) (b_kategori_produk b) i d)))) = stock_keys d"
    by (simp add: update_stock_nama_produk_frame 1)
  with 1 show ?thesis
    using assms Ib_put_products ib_put_products_state [of i b d] by auto
next
  case (Ib_delete_products i)
  then show ?thesis using assms
    by (auto simp: handler_state delete_products_by_id_def with_param_def delete_products_def
        stock_keys_def Let_def split: sum.splits)
next
  case (Ib_put_stock i b)
  then show ?thesis using assms
    by (simp add: handler_state update_stock_by_id_def with_param_def
        update_stock_jumlah_frame split: sum.splits)
next
  case (Ib_delete_stock i)
  then show ?thesis using assms
    by (auto simp: handler_state delete_stock_by_id_def with_param_def delete_stock_def
        stock_keys_def split: sum.splits)
next
  case (Ib_post_products b)
  then show ?thesis using assms
    by (auto simp: handler_state insert_products_def with_param_def stock_keys_def Let_def
        split: sum.splits option.splits)
next
  case (Ib_post_employees b)
  then show ?thesis using assms
    by (auto simp: handler_state insert_employees_def with_param_def stock_keys_def Let_def
        split: sum.splits option.splits)
next
  case (Ib_put_employees i b)
  then show ?thesis using assms
    by (simp add: handler_state update_employees_by_id_frame stock_keys_def)
next
  case (Ib_delete_employees i)
  then show ?thesis using assms
    by (auto simp: handler_state delete_employees_by_id_def with_param_def stock_keys_def
        split: sum.splits)
qed (use assms in \<open>simp_all add: ib_get_products_def ib_get_stock_def ib_get_employees_def\<close>)

lemma nonnull_ib_run:
  "None \<notin> set (stock_keys d) \<Longrightarrow> None \<notin> set (stock_keys (run (map Ib rs) d))"
  by (induction rs arbitrary: d) (simp_all add: nonnull_ib_app)


lemma cascade_after:
  assumes "wf_db d" "Some k \<notin> set (stock_keys d)"
  shows "Some k \<notin> set (map v_id_produk (select_stock_ib d))
       \<and> Some k \<notin> set (map j_id_produk (select_stock_p0 q d))
       \<and> references_ok d"
  using assms select_stock_ib_keys [of d] select_stock_p0_keys [of q d]
  by (auto simp: wf_db_def keys_ok_def)

text \<open>C4. Claim: deleting a product also removes its stock row, so that a later stock
  fetch has no row for that key; every stock row's key always references an existing
  product. Proved for a state that satisfies the constraints of the schema and a
  product \<open>p\<close> in it: the delete by id (\<^verbatim>\<open>inventory_backend.js\<close>) is answered 204 and
  the delete by key (\<^verbatim>\<open>part_000\<close>) 200 with the row; after either, \<open>p\<close> is gone, no
  stock row and no row of either stock listing carries its key, and the keys of the
  stock table reference products. The last holds after every history of requests from
  the empty tables, whichever deployment serves them; in the histories of
  \<^verbatim>\<open>inventory_backend.js\<close> no stock row has a null key.\<close>

theorem delete_product_cascades:
  assumes "wf_db d" "p \<in> set (products d)"
  shows "fst (ib_delete_products (p_id p) d) = (204, No_content)
       \<and> fst (p0_delete_products (p_id_produk p) d) = (200, Deleted_product p)
       \<and> (\<forall>d' \<in> {snd (ib_delete_products (p_id p) d),
                  snd (p0_delete_products (p_id_produk p) d)}.
            p \<notin> set (products d')
          \<and> Some (p_id_produk p) \<notin> set (stock_keys d')
          \<and> Some (p_id_produk p) \<notin> set (map v_id_produk (select_stock_ib d'))
          \<and> Some (p_id_produk p) \<notin> set (map j_id_produk (select_stock_p0 q d'))
          \<and> references_ok d')
       \<and> references_ok (run rs createTables)
       \<and> None \<notin> set (stock_keys (run (map Ib irs) createTables))"
proof -
  let ?ib = "ib_delete_products (p_id p) d" and ?p0 = "p0_delete_products (p_id_produk p) d"
  have int: "int4 (Some (p_id p)) = Inr (Some (p_id p))"
    using wf_in_int4 [OF assms] by (rule int4_fits)
  have ib_stmt: "delete_products_by_id (p_id p) d = delete_products (\<lambda>r. p_id r = p_id p) d"
    by (simp add: delete_products_by_id_def with_param_def int)
  have ib_rows: "fst (delete_products (\<lambda>r. p_id r = p_id p) d) = Inr (filter (\<lambda>r. p_id r = p_id p) (products d))"
      "filter (\<lambda>r. p_id r = p_id p) (products d) \<noteq> []"
    using delete_products_cascade(3,4) [OF assms(2), of "\<lambda>r. p_id r = p_id p"] by simp_all
  have eq: "delete_products W d = (Inr (filter W (products d)), snd (delete_products W d))" for W
    by (simp add: delete_products_def Let_def)
  have ib_resp: "fst ?ib = (204, No_content)"
    unfolding ib_delete_products_def ib_stmt
    by (subst eq) (simp add: ib_rows(2))
  have ib_state: "snd ?ib = snd (delete_products (\<lambda>r. p_id r = p_id p) d)"
    by (simp add: handler_state ib_stmt)
  have p0_rows: "fst (delete_products (\<lambda>r. p_id_produk r = p_id_produk p) d) = Inr [p]"
    using delete_products_cascade(3) [OF assms(2), of "\<lambda>r. p_id_produk r = p_id_produk p"]
      unique_product_by_key [OF assms] by simp
  have p0_resp: "fst ?p0 = (200, Deleted_product p)"
    unfolding p0_delete_products_def delete_products_by_id_produk_def
    by (subst eq) (simp add: unique_product_by_key [OF assms])
  have p0_state: "snd ?p0 = snd (delete_products (\<lambda>r. p_id_produk r = p_id_produk p) d)"
    by (simp add: handler_state delete_products_by_id_produk_def)
  have after: "p \<notin> set (products d') \<and> Some (p_id_produk p) \<notin> set (stock_keys d')
      \<and> Some (p_id_produk p) \<notin> set (map v_id_produk (select_stock_ib d'))
      \<and> Some (p_id_produk p) \<notin> set (map j_id_produk (select_stock_p0 q d'))
      \<and> references_ok d'"
    if "d' = snd (delete_products W d)" "W p" for d' W
    using that delete_products_cascade(1,2) [OF assms(2), of W]
      cascade_after [OF wf_delete_products [OF assms(1), of W], of "p_id_produk p" q]
    by simp
  have hist: "references_ok (run rs createTables)"
    using wf_run [OF wf_createTables, of rs] by (simp add: wf_db_def keys_ok_def)
  have nonnull: "None \<notin> set (stock_keys (run (map Ib irs) createTables))"
    by (rule nonnull_ib_run) (simp add: stock_keys_def createTables_def)
  from ib_resp p0_resp after [OF ib_state] after [OF p0_state] hist nonnull
  show ?thesis by simp
qed

theorem delete_product_cascades_witness:
  "wf_db (stocked_ib 5)
   \<and> fst (ib_delete_products 1 (stocked_ib 5)) = (204, No_content)
   \<and> Some ''P1'' \<notin> set (stock_keys (snd (ib_delete_products 1 (stocked_ib 5))))
   \<and> Some ''P1'' \<notin> set (map v_id_produk (select_stock_ib (snd (ib_delete_products 1 (stocked_ib 5)))))
   \<and> references_ok (run [Ib (Ib_post_products widget), P0 (P0_post_stock (units 5))] createTables)"
proof -
  have wf: "wf_db (stocked_ib 5)"
    unfolding stocked_ib_def by (rule wf_run [OF wf_createTables])
  have st: "products (stocked_ib 5) = [\<lparr>p_id = 1, p_id_produk = ''P1'', p_nama_produk = ''Widget'',
      p_kategori_produk = None\<rparr>]"
    by code_simp
  from wf show ?thesis
    using delete_product_cascades [of "stocked_ib 5"
        "\<lparr>p_id = 1, p_id_produk = ''P1'', p_nama_produk = ''Widget'', p_kategori_produk = None\<rparr>"
        None "[Ib (Ib_post_products widget), P0 (P0_post_stock (units 5))]" "[]"]
    by (simp add: st)
qed

section \<open>Stock for a key that no product carries\<close>

lemma insert_stock_tables:
  "products (snd (insert_stock k n q d)) = products d"
  "employees (snd (insert_stock k n q d)) = employees d"
  "fst (insert_stock k n q d) = Inl e \<Longrightarrow> stocks (snd (insert_stock k n q d)) = stocks d"
  by (auto simp: insert_stock_def with_param_def Let_def split: sum.splits option.splits if_splits)

lemma insert_stock_unknown:
  assumes "wf_db d" "length k \<le> 50" "k \<notin> set (product_keys d)"
  shows "fst (insert_stock (Some k) n q d) =
           Inl (if converts (varchar 100 n) \<and> converts (int4 q) \<and> stock_id_seq d < 2147483647
                then (if n = None then Not_null_violation else Foreign_key_violation)
                else (case varchar 100 n of Inl e \<Rightarrow> e
                      | Inr _ \<Rightarrow> (case int4 q of Inl e \<Rightarrow> e
                                  | Inr _ \<Rightarrow> Sequence_generator_limit_exceeded)))"
proof -
  from assms(1) have fresh: "stock_id_seq d + 1 \<notin> set (map s_id (stocks d))"
    using serial_ok_fresh [of "stock_ids d" "stock_id_seq d"]
    by (simp add: wf_db_def ids_ok_def stock_ids_def)
  from assms(1,3) have nokey: "Some k \<notin> set (map s_id_produk (stocks d))"
    by (auto simp: wf_db_def keys_ok_def references_ok_iff stock_keys_def)
  show ?thesis
  proof (cases "varchar 100 n")
    case (Inl e)
    then show ?thesis
      by (simp add: insert_stock_def with_param_def varchar_Some assms(2) converts_def)
  next
    case n': (Inr n')
    show ?thesis
    proof (cases "int4 q")
      case (Inl e)
      then show ?thesis
        by (simp add: insert_stock_def with_param_def varchar_Some assms(2) converts_def n')
    next
      case (Inr q')
      from n' have nn: "n = None \<longleftrightarrow> n' = None" by (auto dest: varchar_Inr)
      show ?thesis
        using fresh nokey assms(3) nn
        by (auto simp: insert_stock_def with_param_def varchar_Some assms(2) converts_def n' Inr
            Let_def product_keys_def split: option.splits)
    qed
  qed
qed

text \<open>The key column is \<open>VARCHAR(50)\<close>: a longer key whose excess is spaces is stored cut
  to its first 50 characters, and any other longer key is refused before a row is
  examined.\<close>

lemma varchar_take: "converts (varchar n (Some k)) \<Longrightarrow> varchar n (Some k) = Inr (Some (take n k))"
  by (auto simp: varchar_def converts_def split: if_splits)

lemma insert_stock_stored:
  "converts (varchar 50 (Some k))
     \<Longrightarrow> insert_stock (Some k) n q d = insert_stock (Some (take 50 k)) n q d"
  by (simp add: insert_stock_def with_param_def varchar_take varchar_Some)

lemma insert_stock_too_long:
  "\<not> converts (varchar 50 k) \<Longrightarrow> insert_stock k n q d = (Inl String_data_right_truncation, d)"
  by (auto simp: insert_stock_def with_param_def varchar_def converts_def
      split: option.splits if_splits)

text \<open>So a key of 51 characters that no product carries is stored as the key of
  \<open>long_product\<close>, and \<^verbatim>\<open>part_000\<close> creates the stock row.\<close>

lemma p0_post_stock_cut_key:
  "wf_db long_product
   \<and> length (long_key @ '' '') = 51
   \<and> long_key @ '' '' \<notin> set (product_keys long_product)
   \<and> take 50 (long_key @ '' '') \<in> set (product_keys long_product)
   \<and> fst (fst (p0_post_stock \<lparr>sb_id_produk = Some (long_key @ '' ''),
        sb_nama_produk = Some ''Widget'', sb_jumlah_stok = Some 1\<rparr> long_product)) = 201
   \<and> map s_id_produk (stocks (snd (p0_post_stock \<lparr>sb_id_produk = Some (long_key @ '' ''),
        sb_nama_produk = Some ''Widget'', sb_jumlah_stok = Some 1\<rparr> long_product)))
       = [Some long_key]"
proof -
  have "wf_db long_product"
    unfolding long_product_def by (rule wf_run [OF wf_createTables])
  moreover have "length (long_key @ '' '') = 51
   \<and> long_key @ '' '' \<notin> set (product_keys long_product)
   \<and> take 50 (long_key @ '' '') \<in> set (product_keys long_product)
   \<and> fst (fst (p0_post_stock \<lparr>sb_id_produk = Some (long_key @ '' ''),
        sb_nama_produk = Some ''Widget'', sb_jumlah_stok = Some 1\<rparr> long_product)) = 201
   \<and> map s_id_produk (stocks (snd (p0_post_stock \<lparr>sb_id_produk = Some (long_key @ '' ''),
        sb_nama_produk = Some ''Widget'', sb_jumlah_stok = Some 1\<rparr> long_product)))
       = [Some long_key]"
    by code_simp
  ultimately show ?thesis by blast
qed

text \<open>C5. Claim: a stock create whose business key references no product fails, with 404
  in \<^verbatim>\<open>inventory_backend.js\<close> and the referential 400 in \<^verbatim>\<open>part_000\<close>, and creates no
  stock row. As amended, for a key \<open>k\<close> that no product carries, of any length, in a
  store that satisfies the constraints of the schema:
  \<^verbatim>\<open>inventory_backend.js\<close> fails and leaves the whole state unchanged, with 404 when the
  request passes its field check (key not empty, quantity present) and 400 otherwise;
  \<^verbatim>\<open>part_000\<close>, when the first 50 characters of \<open>k\<close> (the most that the key column
  stores; \<open>k\<close> itself when it is no longer) are no product's key either, fails and
  leaves the stock and the product table unchanged, with 400 when the key, the name
  and the quantity convert to their columns, the request carries a name and the id
  sequence has a value left, and 500 otherwise (a key that does not convert, and the
  \<open>NOT NULL\<close> constraint on the name, are reported before the foreign key).\<close>

theorem post_stock_unknown_product:
  assumes "wf_db d" "sb_id_produk b = Some k" "k \<notin> set (product_keys d)"
  shows "snd (ib_post_stock b d) = d
       \<and> fst (fst (ib_post_stock b d)) = (if k = [] \<or> sb_jumlah_stok b = None then 400 else 404)
       \<and> (take 50 k \<notin> set (product_keys d) \<longrightarrow>
            stocks (snd (p0_post_stock b d)) = stocks d
          \<and> products (snd (p0_post_stock b d)) = products d
          \<and> fst (fst (p0_post_stock b d)) =
              (if converts (varchar 50 (Some k))
                  \<and> sb_nama_produk b \<noteq> None \<and> converts (varchar 100 (sb_nama_produk b))
                  \<and> converts (int4 (sb_jumlah_stok b)) \<and> stock_id_seq d < 2147483647
               then 400 else 500))"
proof -
  from assms(3) have none: "select_nama_produk k d = []"
    by (auto simp: select_nama_produk_def product_keys_def filter_empty_conv)
  have ib: "snd (ib_post_stock b d) = d"
    "fst (fst (ib_post_stock b d)) = (if k = [] \<or> sb_jumlah_stok b = None then 400 else 404)"
    using assms(2) none by (auto simp: ib_post_stock_def split: option.splits)
  have p0: "stocks (snd (p0_post_stock b d)) = stocks d
          \<and> products (snd (p0_post_stock b d)) = products d
          \<and> fst (fst (p0_post_stock b d)) =
              (if converts (varchar 50 (Some k))
                  \<and> sb_nama_produk b \<noteq> None \<and> converts (varchar 100 (sb_nama_produk b))
                  \<and> converts (int4 (sb_jumlah_stok b)) \<and> stock_id_seq d < 2147483647
               then 400 else 500)"
    if stored: "take 50 k \<notin> set (product_keys d)"
  proof (cases "converts (varchar 50 (Some k))")
    case False
    then have "insert_stock (Some k) (sb_nama_produk b) (sb_jumlah_stok b) d
                 = (Inl String_data_right_truncation, d)"
      by (rule insert_stock_too_long)
    with False show ?thesis
      by (simp add: p0_post_stock_def assms(2) handleQueryError_def)
  next
    case key: True
    let ?ins = "insert_stock (Some k) (sb_nama_produk b) (sb_jumlah_stok b) d"
    have e: "fst ?ins =
           Inl (if converts (varchar 100 (sb_nama_produk b)) \<and> converts (int4 (sb_jumlah_stok b))
                   \<and> stock_id_seq d < 2147483647
                then (if sb_nama_produk b = None then Not_null_violation else Foreign_key_violation)
                else (case varchar 100 (sb_nama_produk b) of Inl e \<Rightarrow> e
                      | Inr _ \<Rightarrow> (case int4 (sb_jumlah_stok b) of Inl e \<Rightarrow> e
                                  | Inr _ \<Rightarrow> Sequence_generator_limit_exceeded)))"
      unfolding insert_stock_stored [OF key]
      by (rule insert_stock_unknown [OF assms(1) _ stored]) simp
    then have tables: "stocks (snd ?ins) = stocks d" "products (snd ?ins) = products d"
      by (simp_all add: insert_stock_tables)
    obtain r d' where ins: "?ins = (r, d')" by (cases ?ins)
    have status: "fst (fst (p0_post_stock b d)) =
              (if sb_nama_produk b \<noteq> None \<and> converts (varchar 100 (sb_nama_produk b))
                  \<and> converts (int4 (sb_jumlah_stok b)) \<and> stock_id_seq d < 2147483647
               then 400 else 500)"
    proof (cases "converts (varchar 100 (sb_nama_produk b)) \<and> converts (int4 (sb_jumlah_stok b))
                  \<and> stock_id_seq d < 2147483647")
      case True
      with e ins show ?thesis
        by (auto simp: p0_post_stock_def assms(2) handleQueryError_def)
    next
      case False
      have "r \<noteq> Inl Foreign_key_violation \<and> r \<noteq> Inl Unique_violation \<and> (\<exists>x. r = Inl x)"
        using False e ins
        by (auto simp: converts_def int4_def varchar_def split: sum.splits option.splits if_splits)
      with ins False show ?thesis
        by (auto simp: p0_post_stock_def assms(2) handleQueryError_def)
    qed
    from tables status key show ?thesis by (simp add: handler_state assms(2))
  qed
  from ib p0 show ?thesis by blast
qed

theorem post_stock_unknown_product_witness:
  "wf_db createTables
   \<and> ib_post_stock (units 5) createTables = ((404, Send ''Produk terkait tidak ditemukan.''), createTables)
   \<and> fst (fst (p0_post_stock (units 5) createTables)) = 400
   \<and> stocks (snd (p0_post_stock (units 5) createTables)) = []"
proof -
  have "fst (ib_post_stock (units 5) createTables) = (404, Send ''Produk terkait tidak ditemukan.'')"
    by code_simp
  then show ?thesis
    using wf_createTables
      post_stock_unknown_product [OF wf_createTables, of "units 5" "''P1''"]
    by (simp add: units_def createTables_def product_keys_def converts_def varchar_def int4_def
        prod_eq_iff)
qed

text \<open>The claim as stated fails on the status: \<^verbatim>\<open>part_000\<close> answers a request without
  \<open>nama_produk\<close> with 500, and \<^verbatim>\<open>inventory_backend.js\<close> a request without quantity
  with 400.\<close>

theorem post_stock_unknown_product_other_status:
  "fst (p0_post_stock \<lparr>sb_id_produk = Some ''P9'', sb_nama_produk = None,
                        sb_jumlah_stok = Some 1\<rparr> createTables)
     = (500, Internal_server_error Not_null_violation)
   \<and> fst (ib_post_stock \<lparr>sb_id_produk = Some ''P9'', sb_nama_produk = None,
                          sb_jumlah_stok = None\<rparr> createTables)
     = (400, Send ''ID Produk dan Jumlah Stok wajib diisi.'')"
  by code_simp

section \<open>Updates and deletes that match no row\<close>

lemma no_row:
  "i \<notin> set (product_ids d) \<Longrightarrow> filter (\<lambda>p. p_id p = i) (products d) = []"
  "k \<notin> set (product_keys d) \<Longrightarrow> filter (\<lambda>p. p_id_produk p = k) (products d) = []"
  "i \<notin> set (stock_ids d) \<Longrightarrow> filter (\<lambda>s. s_id s = i) (stocks d) = []"
  "Some k \<notin> set (stock_keys d) \<Longrightarrow> filter (\<lambda>s. s_id_produk s = Some k) (stocks d) = []"
  "i \<notin> set (employee_ids d) \<Longrightarrow> filter (\<lambda>r. e_id r = i) (employees d) = []"
  by (auto simp: product_ids_def product_keys_def stock_ids_def stock_keys_def employee_ids_def
      filter_empty_conv intro: rev_image_eqI)

lemma filter_none: "filter W xs = [] \<Longrightarrow> filter (\<lambda>x. \<not> W x) xs = xs"
  by (induction xs) (auto split: if_splits)

lemma map_none: "filter W xs = [] \<Longrightarrow> map (\<lambda>x. if W x then f x else x) xs = xs"
  by (induction xs) (auto split: if_splits)

lemma update_products_none:
  "filter W (products d) = [] \<Longrightarrow>
   update_products n c W d =
     (if converts (varchar 100 n) \<and> converts (varchar 100 c) then (Inr [], d)
      else (Inl (case varchar 100 n of Inl e \<Rightarrow> e
                 | Inr _ \<Rightarrow> (case varchar 100 c of Inl e \<Rightarrow> e | Inr x \<Rightarrow> Cardinality_violation)), d))"
  by (auto simp: update_products_def with_param_def converts_def split: sum.splits)

lemma delete_products_none:
  "filter W (products d) = [] \<Longrightarrow> delete_products W d = (Inr [], d)"
  by (simp add: delete_products_def filter_none)

lemma update_stock_jumlah_none:
  "filter W (stocks d) = [] \<Longrightarrow>
   update_stock_jumlah q W d =
     (if converts (int4 q) then (Inr [], d)
      else (Inl (case int4 q of Inl e \<Rightarrow> e | Inr x \<Rightarrow> Cardinality_violation), d))"
  by (auto simp: update_stock_jumlah_def with_param_def converts_def map_none split: sum.splits)

lemma delete_stock_none:
  "filter W (stocks d) = [] \<Longrightarrow> delete_stock W d = (Inr [], d)"
  by (simp add: delete_stock_def filter_none)

lemma update_employees_none:
  "filter (\<lambda>r. e_id r = i) (employees d) = [] \<Longrightarrow>
   update_employees_by_id n p m i d =
     (if converts (varchar 100 n) \<and> converts (varchar 100 p) \<and> converts (varchar 100 m)
         \<and> in_int4 i then (Inr [], d)
      else (Inl (case varchar 100 n of Inl e \<Rightarrow> e
                 | Inr _ \<Rightarrow> (case varchar 100 p of Inl e \<Rightarrow> e
                 | Inr _ \<Rightarrow> (case varchar 100 m of Inl e \<Rightarrow> e
                 | Inr _ \<Rightarrow> Numeric_value_out_of_range))), d))"
  by (auto simp: update_employees_by_id_def with_param_def converts_def int4_def in_int4_def
      split: sum.splits)

lemma delete_employees_none:
  "filter (\<lambda>r. e_id r = i) (employees d) = [] \<Longrightarrow>
   delete_employees_by_id i d =
     (if in_int4 i then (Inr [], d) else (Inl Numeric_value_out_of_range, d))"
  using filter_none [of "\<lambda>r. e_id r = i" "employees d"]
  by (auto simp: delete_employees_by_id_def with_param_def int4_def in_int4_def)

lemma by_id_int4:
  "with_param (int4 (Some i)) d f =
     (if in_int4 i then f (Some i) else (Inl Numeric_value_out_of_range, d))"
  by (simp add: with_param_def int4_def in_int4_def)

text \<open>C6. Claim: an update or delete of a product, stock row or employee whose identifier
  matches no row is answered 404 and leaves every table unchanged. As amended: the
  state is unchanged, and the answer is 404 when the parameters of the statement
  convert to their column types; a parameter that does not convert (a quantity or an
  id outside \<open>INTEGER\<close>, a text wider than its column) is rejected by the database
  before any row is looked at, and the answer is 500.\<close>

theorem missing_target_not_found:
  assumes "targets_no_row r d"
  shows "fst (fst (app r d)) = (if params_convert r then 404 else 500) \<and> snd (app r d) = d"
proof (cases r)
  case (Ib x)
  with assms show ?thesis
    by (cases x)
      (auto simp: no_row ib_put_products_def ib_delete_products_def ib_put_stock_def
        ib_delete_stock_def ib_put_employees_def ib_delete_employees_def
        update_products_by_id_def delete_products_by_id_def update_stock_by_id_def
        delete_stock_by_id_def by_id_int4 update_products_none delete_products_none
        update_stock_jumlah_none delete_stock_none update_employees_none delete_employees_none
        handler_state)
next
  case (P0 x)
  with assms show ?thesis
    by (cases x)
      (auto simp: no_row p0_put_products_def p0_delete_products_def p0_put_stock_def
        p0_delete_stock_def p0_put_employees_def p0_delete_employees_def
        update_products_by_id_produk_def delete_products_by_id_produk_def
        update_stock_by_id_produk_def delete_stock_by_id_produk_def
        update_products_none delete_products_none
        update_stock_jumlah_none delete_stock_none update_employees_none delete_employees_none
        handler_state handleQueryError_def)
qed

theorem missing_target_not_found_witness:
  "targets_no_row (Ib (Ib_delete_employees 7)) createTables
   \<and> fst (fst (app (Ib (Ib_delete_employees 7)) createTables)) = 404
   \<and> snd (app (Ib (Ib_delete_employees 7)) createTables) = createTables
   \<and> targets_no_row (P0 (P0_put_products ''P9'' gadget)) stocked_p0
   \<and> fst (fst (app (P0 (P0_put_products ''P9'' gadget)) stocked_p0)) = 404
   \<and> snd (app (P0 (P0_put_products ''P9'' gadget)) stocked_p0) = stocked_p0"
proof -
  have 1: "targets_no_row (Ib (Ib_delete_employees 7)) createTables"
    by (simp add: employee_ids_def createTables_def)
  have "product_keys stocked_p0 = [''P1'']" by code_simp
  then have 2: "targets_no_row (P0 (P0_put_products ''P9'' gadget)) stocked_p0"
    by simp
  from 1 2 show ?thesis
    using missing_target_not_found [of "Ib (Ib_delete_employees 7)" createTables]
      missing_target_not_found [of "P0 (P0_put_products ''P9'' gadget)" stocked_p0]
    by (simp add: in_int4_def converts_def varchar_def gadget_def)
qed

text \<open>The claim as stated fails for a quantity outside the range of \<open>INTEGER\<close>: no
  stock row has id 1 in the empty table, and the answer is 500.\<close>

theorem ib_put_stock_out_of_range_500:
  "targets_no_row (Ib (Ib_put_stock 1 (units 3000000000))) createTables
   \<and> fst (ib_put_stock 1 (units 3000000000) createTables) = (500, Send ''Internal Server Error'')"
  by (simp add: stock_ids_def createTables_def ib_put_stock_def update_stock_by_id_def
      update_stock_jumlah_def with_param_def int4_def units_def)

section \<open>Creates with a required field missing\<close>

lemma insert_products_null:
  assumes "k = None \<or> n = None"
  shows "\<exists>e. fst (insert_products k n c d) = Inl e \<and> e \<noteq> Unique_violation"
    and "products (snd (insert_products k n c d)) = products d"
    and "stocks (snd (insert_products k n c d)) = stocks d"
    and "employees (snd (insert_products k n c d)) = employees d"
  using assms
  by (auto simp: insert_products_def with_param_def Let_def varchar_def
      split: sum.splits option.splits if_splits)

lemma insert_employees_null:
  shows "\<exists>e. fst (insert_employees None p m d) = Inl e"
    and "products (snd (insert_employees None p m d)) = products d"
    and "stocks (snd (insert_employees None p m d)) = stocks d"
    and "employees (snd (insert_employees None p m d)) = employees d"
  by (auto simp: insert_employees_def with_param_def Let_def varchar_def
      split: sum.splits option.splits if_splits)

text \<open>C7. Claim: a create request that misses a required field (key or name of a
  product, name or position of an employee) is answered 400 before any database
  statement, the state unchanged. As amended: so it is in \<^verbatim>\<open>inventory_backend.js\<close>,
  where a field counts as missing when it is absent, null or empty. \<^verbatim>\<open>part_000\<close>
  has no such check: a product create without key or name and an employee create
  without name reach the database, whose \<open>NOT NULL\<close> constraint rejects them, and are
  answered 500 with no table changed.\<close>

theorem create_missing_field:
  "(falsy (b_id_produk pb) \<or> falsy (b_nama_produk pb) \<longrightarrow>
      ib_post_products pb d = ((400, Send ''ID Produk dan Nama Produk wajib diisi.''), d))
   \<and> (falsy (eb_nama eb) \<or> falsy (eb_posisi eb) \<longrightarrow>
      ib_post_employees eb d = ((400, Send ''Nama dan Posisi wajib diisi.''), d))
   \<and> (b_id_produk pb = None \<or> b_nama_produk pb = None \<longrightarrow>
      fst (fst (p0_post_products pb d)) = 500
      \<and> products (snd (p0_post_products pb d)) = products d
      \<and> stocks (snd (p0_post_products pb d)) = stocks d
      \<and> employees (snd (p0_post_products pb d)) = employees d)
   \<and> (eb_nama eb = None \<longrightarrow>
      fst (fst (p0_post_employees eb d)) = 500
      \<and> products (snd (p0_post_employees eb d)) = products d
      \<and> stocks (snd (p0_post_employees eb d)) = stocks d
      \<and> employees (snd (p0_post_employees eb d)) = employees d)"
proof -
  have ib: "falsy (b_id_produk pb) \<or> falsy (b_nama_produk pb) \<longrightarrow>
      ib_post_products pb d = ((400, Send ''ID Produk dan Nama Produk wajib diisi.''), d)"
    "falsy (eb_nama eb) \<or> falsy (eb_posisi eb) \<longrightarrow>
      ib_post_employees eb d = ((400, Send ''Nama dan Posisi wajib diisi.''), d)"
    by (simp_all add: ib_post_products_def ib_post_employees_def)
  have p: "fst (fst (p0_post_products pb d)) = 500"
    if "b_id_produk pb = None \<or> b_nama_produk pb = None"
  proof -
    obtain r d' where eq: "insert_products (b_id_produk pb) (b_nama_produk pb)
        (b_kategori_produk pb) d = (r, d')"
      by (cases "insert_products (b_id_produk pb) (b_nama_produk pb) (b_kategori_produk pb) d")
    with insert_products_null(1) [OF that, of "b_kategori_produk pb" d]
    obtain e where "r = Inl e" "e \<noteq> Unique_violation" by auto
    with eq show ?thesis by (simp add: p0_post_products_def handleQueryError_def)
  qed
  have e: "fst (fst (p0_post_employees eb d)) = 500" if "eb_nama eb = None"
  proof -
    obtain r d' where eq: "insert_employees (eb_nama eb) (eb_posisi eb) (eb_email eb) d = (r, d')"
      by (cases "insert_employees (eb_nama eb) (eb_posisi eb) (eb_email eb) d")
    with insert_employees_null(1) [of "eb_posisi eb" "eb_email eb" d] that
    obtain x where "r = Inl x" by auto
    with eq show ?thesis by (simp add: p0_post_employees_def handleQueryError_def)
  qed
  from ib p e show ?thesis
    by (auto simp: handler_state insert_products_null insert_employees_null)
qed

theorem create_missing_field_witness:
  "falsy (b_id_produk gadget)
   \<and> ib_post_products gadget createTables
       = ((400, Send ''ID Produk dan Nama Produk wajib diisi.''), createTables)
   \<and> falsy (eb_posisi \<lparr>eb_nama = None, eb_posisi = Some [], eb_email = None\<rparr>)
   \<and> ib_post_employees \<lparr>eb_nama = None, eb_posisi = Some [], eb_email = None\<rparr> createTables
       = ((400, Send ''Nama dan Posisi wajib diisi.''), createTables)
   \<and> fst (fst (p0_post_products gadget createTables)) = 500
   \<and> products (snd (p0_post_products gadget createTables)) = []
   \<and> fst (fst (p0_post_employees \<lparr>eb_nama = None, eb_posisi = Some [], eb_email = None\<rparr>
                  createTables)) = 500
   \<and> employees (snd (p0_post_employees \<lparr>eb_nama = None, eb_posisi = Some [], eb_email = None\<rparr>
                  createTables)) = []"
  using create_missing_field [of gadget createTables
      "\<lparr>eb_nama = None, eb_posisi = Some [], eb_email = None\<rparr>"]
  by (simp add: falsy_def gadget_def createTables_def)

text \<open>The claim as stated fails in \<^verbatim>\<open>part_000\<close>: an employee without position is
  inserted (the column is nullable) and the answer is 201.\<close>

theorem p0_post_employees_without_posisi:
  "p0_post_employees \<lparr>eb_nama = Some ''Ani'', eb_posisi = None, eb_email = None\<rparr> createTables
     = ((201, Json_employee \<lparr>e_id = 1, e_nama = ''Ani'', e_posisi = None, e_email = None\<rparr>),
        createTables\<lparr>employees := [\<lparr>e_id = 1, e_nama = ''Ani'', e_posisi = None,
                                      e_email = None\<rparr>],
                     employees_id_seq := 1\<rparr>)"
  by code_simp

section \<open>Search on the list routes\<close>

text \<open>For a search parameter without \<open>%\<close>, \<open>_\<close> and backslash, the pattern
  \<^verbatim>\<open>%search%\<close> matches exactly the texts that contain the parameter.\<close>

lemma of_char_to_lower:
  "(of_char (to_lower c) :: nat) =
     (if 65 \<le> (of_char c :: nat) \<and> (of_char c :: nat) \<le> 90 then of_char c + 32 else of_char c)"
  by (simp add: to_lower_def Let_def)

lemma to_lower_meta:
  "to_lower c = CHR ''%'' \<longleftrightarrow> c = CHR ''%''"
  "to_lower c = CHR ''_'' \<longleftrightarrow> c = CHR ''_''"
  "to_lower c = CHR 0x5C \<longleftrightarrow> c = CHR 0x5C"
proof -
  have eq: "\<And>a b :: char. a = b \<longleftrightarrow> (of_char a :: nat) = of_char b" by auto
  show "to_lower c = CHR ''%'' \<longleftrightarrow> c = CHR ''%''"
    "to_lower c = CHR ''_'' \<longleftrightarrow> c = CHR ''_''"
    "to_lower c = CHR 0x5C \<longleftrightarrow> c = CHR 0x5C"
    unfolding eq [of "to_lower c"] eq [of c] of_char_to_lower by auto
qed

lemma plain_to_lower: "plain (map to_lower s) = plain s"
  by (induction s) (simp_all add: plain_def to_lower_meta)

lemma like_all: "like v ''%''"
  by (induction v) simp_all

lemma like_percent: "like t (CHR ''%'' # p) \<longleftrightarrow> (\<exists>u v. t = u @ v \<and> like v p)"
proof (induction t)
  case Nil
  then show ?case by simp
next
  case (Cons x t)
  have "like (x # t) (CHR ''%'' # p) \<longleftrightarrow> like (x # t) p \<or> like t (CHR ''%'' # p)"
    by simp
  also have "\<dots> \<longleftrightarrow> like (x # t) p \<or> (\<exists>u v. t = u @ v \<and> like v p)"
    by (simp only: Cons.IH)
  also have "\<dots> \<longleftrightarrow> (\<exists>u v. x # t = u @ v \<and> like v p)"
  proof
    assume "like (x # t) p \<or> (\<exists>u v. t = u @ v \<and> like v p)"
    then show "\<exists>u v. x # t = u @ v \<and> like v p"
    proof
      assume "like (x # t) p"
      then have "x # t = [] @ (x # t) \<and> like (x # t) p" by simp
      then show ?thesis by blast
    next
      assume "\<exists>u v. t = u @ v \<and> like v p"
      then obtain u v where "t = u @ v" "like v p" by blast
      then have "x # t = (x # u) @ v \<and> like v p" by simp
      then show ?thesis by blast
    qed
  next
    assume "\<exists>u v. x # t = u @ v \<and> like v p"
    then obtain u v where uv: "x # t = u @ v" "like v p" by blast
    show "like (x # t) p \<or> (\<exists>u v. t = u @ v \<and> like v p)"
    proof (cases u)
      case Nil
      with uv show ?thesis by simp
    next
      case (Cons y u')
      with uv have "t = u' @ v" by simp
      with uv(2) show ?thesis by blast
    qed
  qed
  finally show ?case .
qed

lemma like_plain: "plain s \<Longrightarrow> like t (s @ p) \<longleftrightarrow> (\<exists>v. t = s @ v \<and> like v p)"
proof (induction s arbitrary: t)
  case Nil
  then show ?case by simp
next
  case (Cons c s)
  then have c: "c \<noteq> CHR ''%''" "c \<noteq> CHR ''_''" "c \<noteq> CHR 0x5C" and s: "plain s"
    by (simp_all add: plain_def)
  show ?case
  proof (cases t)
    case Nil
    with c show ?thesis by simp
  next
    case (Cons x t')
    with c have "like t ((c # s) @ p) \<longleftrightarrow> x = c \<and> like t' (s @ p)" by simp
    also have "\<dots> \<longleftrightarrow> x = c \<and> (\<exists>v. t' = s @ v \<and> like v p)"
      using Cons.IH [OF s] by simp
    also have "\<dots> \<longleftrightarrow> (\<exists>v. t = (c # s) @ v \<and> like v p)"
      using Cons by auto
    finally show ?thesis .
  qed
qed

lemma like_search: "plain s \<Longrightarrow> like t (search_pattern s) \<longleftrightarrow> sublist s t"
proof -
  assume s: "plain s"
  have "like t (search_pattern s) \<longleftrightarrow> (\<exists>u v. t = u @ v \<and> like v (s @ ''%''))"
    unfolding search_pattern_def by (rule like_percent)
  also have "\<dots> \<longleftrightarrow> (\<exists>u v. t = u @ v \<and> (\<exists>w. v = s @ w \<and> like w ''%''))"
    by (simp only: like_plain [OF s])
  also have "\<dots> \<longleftrightarrow> (\<exists>u w. t = u @ s @ w)"
    using like_all by blast
  finally show ?thesis by (simp add: sublist_def)
qed

lemma map_to_lower_pattern: "map to_lower (search_pattern s) = search_pattern (map to_lower s)"
  by (simp add: search_pattern_def to_lower_meta)

lemma ilike_search: "plain s \<Longrightarrow> ilike t (search_pattern s) \<longleftrightarrow> ci_sublist s t"
  by (simp add: ilike_def ci_sublist_def map_to_lower_pattern like_search plain_to_lower)

lemma ilike_null_search:
  "plain s \<Longrightarrow> ilike_null v (search_pattern s) \<longleftrightarrow> ci_sublist_null s v"
  by (simp add: ilike_null_def ci_sublist_null_def ilike_search split: option.splits)

lemma not_dangling: "\<not> dangling (p @ ''%'')"
  by (induction p rule: dangling.induct) simp_all

lemma search_pattern_not_dangling: "\<not> dangling (search_pattern s)"
  using not_dangling [of "CHR ''%'' # s"] by (simp add: search_pattern_def)

text \<open>C8. Claim: for every search parameter and row, the filter of the list operations
  matches iff the parameter is a substring, without regard to case, of at least one of
  the listed fields (name, category, key of a product; name, position, email of an
  employee). As amended: for every search parameter that contains none of the
  characters \<open>%\<close>, \<open>_\<close> and backslash; a null field contains nothing. The list
  routes of \<^verbatim>\<open>part_000\<close> return the rows so selected (all rows for the empty
  parameter).\<close>

theorem search_matches_substring:
  assumes "plain s"
  shows "(product_matches s p \<longleftrightarrow>
            ci_sublist s (p_nama_produk p) \<or> ci_sublist_null s (p_kategori_produk p)
            \<or> ci_sublist s (p_id_produk p))
       \<and> (employee_matches s r \<longleftrightarrow>
            ci_sublist s (e_nama r) \<or> ci_sublist_null s (e_posisi r)
            \<or> ci_sublist_null s (e_email r))
       \<and> (stock_matches s x \<longleftrightarrow>
            ci_sublist s (s_nama_produk x) \<or> ci_sublist_null s (s_id_produk x))
       \<and> fst (p0_get_products (Some s) d) =
            (200, Json_products (filter (\<lambda>p. ci_sublist s (p_nama_produk p)
               \<or> ci_sublist_null s (p_kategori_produk p) \<or> ci_sublist s (p_id_produk p))
               (products d)))
       \<and> fst (p0_get_employees (Some s) d) =
            (200, Json_employees (filter (\<lambda>r. ci_sublist s (e_nama r)
               \<or> ci_sublist_null s (e_posisi r) \<or> ci_sublist_null s (e_email r))
               (employees d)))"
proof -
  note m = ilike_search [OF assms] ilike_null_search [OF assms]
  have pm: "product_matches s = (\<lambda>p. ci_sublist s (p_nama_produk p)
      \<or> ci_sublist_null s (p_kategori_produk p) \<or> ci_sublist s (p_id_produk p))"
    by (simp add: product_matches_def m fun_eq_iff)
  have em: "employee_matches s = (\<lambda>r. ci_sublist s (e_nama r)
      \<or> ci_sublist_null s (e_posisi r) \<or> ci_sublist_null s (e_email r))"
    by (simp add: employee_matches_def m fun_eq_iff)
  have sm: "stock_matches s x \<longleftrightarrow>
      ci_sublist s (s_nama_produk x) \<or> ci_sublist_null s (s_id_produk x)"
    by (simp add: stock_matches_def m)
  have empty: "ci_sublist [] t" for t by (simp add: ci_sublist_def)
  have allp: "s = [] \<Longrightarrow> filter (product_matches s) xs = xs" for xs
    unfolding pm by (simp add: empty)
  have alle: "s = [] \<Longrightarrow> filter (employee_matches s) ys = ys" for ys
    unfolding em by (simp add: empty)
  have lp: "fst (p0_get_products (Some s) d) = (200, Json_products (filter (product_matches s) (products d)))"
    using allp [of "products d"] by (cases "s = []") (simp_all add: p0_get_products_def)
  have le: "fst (p0_get_employees (Some s) d) = (200, Json_employees (filter (employee_matches s) (employees d)))"
    using alle [of "employees d"] by (cases "s = []") (simp_all add: p0_get_employees_def)
  from sm lp le show ?thesis by (simp add: pm em)
qed

theorem search_matches_substring_witness:
  "plain ''idg''
   \<and> product_matches ''idg'' \<lparr>p_id = 1, p_id_produk = ''P1'', p_nama_produk = ''WIDGET'',
                                p_kategori_produk = None\<rparr>
   \<and> ci_sublist ''idg'' ''WIDGET''
   \<and> \<not> product_matches ''wid'' \<lparr>p_id = 1, p_id_produk = ''P1'', p_nama_produk = ''Gadget'',
                                  p_kategori_produk = None\<rparr>"
proof -
  have "plain ''idg''" by (simp add: plain_def)
  moreover have "ci_sublist ''idg'' ''WIDGET''" by code_simp
  moreover have "\<not> ci_sublist ''wid'' ''Gadget''" "\<not> ci_sublist ''wid'' ''P1''" by code_simp+
  moreover have "plain ''wid''" by (simp add: plain_def)
  ultimately show ?thesis
    using search_matches_substring [of "''idg''"
        "\<lparr>p_id = 1, p_id_produk = ''P1'', p_nama_produk = ''WIDGET'', p_kategori_produk = None\<rparr>"]
      search_matches_substring [of "''wid''"
        "\<lparr>p_id = 1, p_id_produk = ''P1'', p_nama_produk = ''Gadget'', p_kategori_produk = None\<rparr>"]
    by (simp add: ci_sublist_null_def)
qed

text \<open>The claim as stated fails for a parameter with \<open>_\<close>, which \<open>ILIKE\<close> reads as
  "any one character": \<^verbatim>\<open>a_c\<close> selects the product named \<^verbatim>\<open>abc\<close> and is contained
  in none of its fields.\<close>

theorem search_wildcard_not_substring:
  "product_matches ''a_c'' \<lparr>p_id = 1, p_id_produk = ''P1'', p_nama_produk = ''abc'',
                              p_kategori_produk = None\<rparr>
   \<and> \<not> ci_sublist ''a_c'' ''abc'' \<and> \<not> ci_sublist ''a_c'' ''P1''
   \<and> \<not> ci_sublist_null ''a_c'' None"
  by code_simp

section \<open>The two stock listings\<close>

lemma in_left_join:
  "(s, po) \<in> set (left_join d) \<longleftrightarrow>
     s \<in> set (stocks d)
     \<and> (case po of
          None \<Rightarrow> (\<forall>p\<in>set (products d). s_id_produk s \<noteq> Some (p_id_produk p))
        | Some p \<Rightarrow> p \<in> set (products d) \<and> s_id_produk s = Some (p_id_produk p))"
proof -
  have row: "(s, po) \<in> set (case filter (\<lambda>p. s_id_produk x = Some (p_id_produk p)) (products d) of
                [] \<Rightarrow> [(x, None)] | ps \<Rightarrow> map (\<lambda>p. (x, Some p)) ps)
     \<longleftrightarrow> s = x \<and> (case po of
          None \<Rightarrow> (\<forall>p\<in>set (products d). s_id_produk x \<noteq> Some (p_id_produk p))
        | Some p \<Rightarrow> p \<in> set (products d) \<and> s_id_produk x = Some (p_id_produk p))" for x
  proof (cases "filter (\<lambda>p. s_id_produk x = Some (p_id_produk p)) (products d)")
    case Nil
    then show ?thesis
      by (cases po) (auto simp: filter_empty_conv)
  next
    case (Cons a as)
    then have "set (a # as) = {p \<in> set (products d). s_id_produk x = Some (p_id_produk p)}"
      by (metis set_filter)
    with Cons show ?thesis
      by (cases po) (auto simp: image_iff)
  qed
  show ?thesis
    unfolding left_join_def by (auto simp: row)
qed

text \<open>C9. Claim: the stock listings of the two deployments are not the same function of
  the database state: one shows the name joined from the products table, the other the
  name stored on the stock row, and for some state with a stale copy they differ.
  Proved: every row of the listing of \<^verbatim>\<open>inventory_backend.js\<close> belongs to a stock row
  and carries the name of a product with that row's key (null when there is none);
  every row of the listing of \<^verbatim>\<open>part_000\<close> carries the name stored on its stock row;
  in the state \<open>renamed_p0\<close>, reached through \<^verbatim>\<open>part_000\<close> by a product create, a
  stock create and a rename, the first lists Gadget and the second Widget.\<close>

theorem stock_listings_differ:
  "(v \<in> set (select_stock_ib d) \<longrightarrow>
      (\<exists>s\<in>set (stocks d). v_id v = s_id s \<and> v_id_produk v = s_id_produk s
         \<and> (case v_nama_produk v of
              None \<Rightarrow> (\<forall>p\<in>set (products d). s_id_produk s \<noteq> Some (p_id_produk p))
            | Some n \<Rightarrow> (\<exists>p\<in>set (products d). s_id_produk s = Some (p_id_produk p)
                           \<and> n = p_nama_produk p))))
   \<and> (j \<in> set (select_stock_p0 q d) \<longrightarrow>
      (\<exists>s\<in>set (stocks d). j_id j = s_id s \<and> j_id_produk j = s_id_produk s
         \<and> j_nama_produk j = s_nama_produk s))
   \<and> map v_nama_produk (select_stock_ib renamed_p0) = [Some ''Gadget'']
   \<and> map j_nama_produk (select_stock_p0 None renamed_p0) = [''Widget'']
   \<and> (\<lambda>d. map (\<lambda>v. (v_id v, v_nama_produk v)) (select_stock_ib d))
       \<noteq> (\<lambda>d. map (\<lambda>j. (j_id j, Some (j_nama_produk j))) (select_stock_p0 None d))"
proof -
  have ib: "\<exists>s\<in>set (stocks d). v_id v = s_id s \<and> v_id_produk v = s_id_produk s
         \<and> (case v_nama_produk v of
              None \<Rightarrow> (\<forall>p\<in>set (products d). s_id_produk s \<noteq> Some (p_id_produk p))
            | Some n \<Rightarrow> (\<exists>p\<in>set (products d). s_id_produk s = Some (p_id_produk p)
                           \<and> n = p_nama_produk p))"
    if "v \<in> set (select_stock_ib d)"
  proof -
    from that obtain s po where in_join: "(s, po) \<in> set (left_join d)"
      and v: "v = \<lparr>v_id = s_id s, v_id_produk = s_id_produk s,
                      v_nama_produk = map_option p_nama_produk po,
                      v_jumlah_stok = s_jumlah_stok s\<rparr>"
      by (auto simp: select_stock_ib_def)
    from in_join show ?thesis
      unfolding in_left_join v by (cases po) auto
  qed
  have p0: "\<exists>s\<in>set (stocks d). j_id j = s_id s \<and> j_id_produk j = s_id_produk s
         \<and> j_nama_produk j = s_nama_produk s"
    if "j \<in> set (select_stock_p0 q d)"
  proof -
    from that obtain s po where "(s, po) \<in> set (left_join d)" "j = stock_p0_row (s, po)"
      by (cases q) (auto simp: select_stock_p0_def split: if_splits)
    then show ?thesis
      by (auto simp: in_left_join stock_p0_row_def)
  qed
  have a: "map v_nama_produk (select_stock_ib renamed_p0) = [Some ''Gadget'']"
    by code_simp
  have b: "map j_nama_produk (select_stock_p0 None renamed_p0) = [''Widget'']"
    by code_simp
  have c: "map (\<lambda>v. (v_id v, v_nama_produk v)) (select_stock_ib renamed_p0)
           \<noteq> map (\<lambda>j. (j_id j, Some (j_nama_produk j))) (select_stock_p0 None renamed_p0)"
    by code_simp
  have "(\<lambda>d. map (\<lambda>v. (v_id v, v_nama_produk v)) (select_stock_ib d))
       \<noteq> (\<lambda>d. map (\<lambda>j. (j_id j, Some (j_nama_produk j))) (select_stock_p0 None d))"
    using c by (metis (no_types))
  with ib p0 a b show ?thesis by blast
qed

theorem stock_listings_differ_witness:
  "\<lparr>v_id = 1, v_id_produk = Some ''P1'', v_nama_produk = Some ''Gadget'', v_jumlah_stok = Some 5\<rparr>
      \<in> set (select_stock_ib renamed_p0)
   \<and> \<lparr>j_id = 1, j_id_produk = Some ''P1'', j_nama_produk = ''Widget'', j_jumlah_stok = Some 5,
       j_kategori_produk = None\<rparr> \<in> set (select_stock_p0 None renamed_p0)
   \<and> (\<exists>s\<in>set (stocks renamed_p0). s_nama_produk s = ''Widget''
         \<and> (\<exists>p\<in>set (products renamed_p0). s_id_produk s = Some (p_id_produk p)
               \<and> p_nama_produk p = ''Gadget''))"
proof -
  have a: "select_stock_ib renamed_p0 =
     [\<lparr>v_id = 1, v_id_produk = Some ''P1'', v_nama_produk = Some ''Gadget'', v_jumlah_stok = Some 5\<rparr>]"
    by code_simp
  have b: "select_stock_p0 None renamed_p0 =
     [\<lparr>j_id = 1, j_id_produk = Some ''P1'', j_nama_produk = ''Widget'', j_jumlah_stok = Some 5,
       j_kategori_produk = None\<rparr>]"
    by code_simp
  show ?thesis
    using stock_listings_differ [of
        "\<lparr>v_id = 1, v_id_produk = Some ''P1'', v_nama_produk = Some ''Gadget'', v_jumlah_stok = Some 5\<rparr>"
        renamed_p0
        "\<lparr>j_id = 1, j_id_produk = Some ''P1'', j_nama_produk = ''Widget'', j_jumlah_stok = Some 5,
          j_kategori_produk = None\<rparr>" None]
    by (simp add: a b) metis
qed

section \<open>The name on a new stock row\<close>

lemma names_in_sync_iff:
  "names_in_sync d \<longleftrightarrow>
     (\<forall>s\<in>set (stocks d). \<exists>p\<in>set (products d).
        s_id_produk s = Some (p_id_produk p) \<and> s_nama_produk s = p_nama_produk p)"
  by (simp add: names_in_sync_def list_all_iff list_ex_iff)

lemma cols_product:
  "wf_db d \<Longrightarrow> p \<in> set (products d) \<Longrightarrow> length (p_id_produk p) \<le> 50 \<and> length (p_nama_produk p) \<le> 100"
  by (auto simp: wf_db_def cols_ok_def list_all_iff)

lemma select_nama_produk_hd:
  assumes "select_nama_produk k d = nm # nms"
  shows "\<exists>p\<in>set (products d). p_id_produk p = k \<and> p_nama_produk p = nm"
proof -
  from assms have "nm \<in> set (select_nama_produk k d)" by simp
  then show ?thesis by (auto simp: select_nama_produk_def)
qed

lemma insert_stock_ok:
  assumes "wf_db d" "stock_id_seq d < 2147483647" "length k \<le> 50" "length nm \<le> 100"
    "in_int4 n" "Some k \<notin> set (stock_keys d)" "k \<in> set (product_keys d)"
  shows "insert_stock (Some k) (Some nm) (Some n) d =
           (Inr [\<lparr>s_id = stock_id_seq d + 1, s_id_produk = Some k, s_nama_produk = nm,
                   s_jumlah_stok = Some n\<rparr>],
            d\<lparr>stock_id_seq := stock_id_seq d + 1,
              stocks := stocks d @ [\<lparr>s_id = stock_id_seq d + 1, s_id_produk = Some k,
                                     s_nama_produk = nm, s_jumlah_stok = Some n\<rparr>]\<rparr>)"
proof -
  from assms(1) have "stock_id_seq d + 1 \<notin> set (map s_id (stocks d))"
    using serial_ok_fresh [of "stock_ids d" "stock_id_seq d"]
    by (simp add: wf_db_def ids_ok_def stock_ids_def)
  with assms show ?thesis
    by (simp add: insert_stock_def with_param_def varchar_Some int4_fits Let_def
        stock_keys_def product_keys_def)
qed

lemma ib_post_stock_ignores_name:
  "ib_post_stock (b\<lparr>sb_nama_produk := x\<rparr>) d = ib_post_stock b d"
  by (simp add: ib_post_stock_def)


lemma unique_product_by_id:
  assumes "wf_db d" "p \<in> set (products d)"
  shows "filter (\<lambda>r. p_id r = p_id p) (products d) = [p]"
proof -
  from assms(1) have "distinct (map p_id (products d))"
    by (simp add: wf_db_def ids_ok_def serial_ok_def product_ids_def)
  then have "distinct (filter (\<lambda>k. k \<noteq> None) (map (Some \<circ> p_id) (products d)))"
    by (simp add: distinct_map comp_def inj_on_def filter_map)
  from unique_key_filter [OF this assms(2), of "p_id p"] show ?thesis by simp
qed

lemma filter_map_same_id:
  "filter (\<lambda>p. p_id p = i)
     (map (\<lambda>p. if p_id p = i then p\<lparr>p_nama_produk := a, p_kategori_produk := c\<rparr> else p) xs)
   = map (\<lambda>p. p\<lparr>p_nama_produk := a, p_kategori_produk := c\<rparr>) (filter (\<lambda>p. p_id p = i) xs)"
  by (induction xs) auto

lemma ib_put_products_propagates:
  assumes "wf_db d" "p \<in> set (products d)"
    and "varchar 100 (b_nama_produk b) = Inr (Some name)"
    and "varchar 100 (b_kategori_produk b) = Inr c"
  shows "ib_put_products (p_id p) b d =
           ((200, Json_product (p\<lparr>p_nama_produk := name, p_kategori_produk := c\<rparr>)),
            d\<lparr>products := map (\<lambda>r. if p_id r = p_id p
                                    then r\<lparr>p_nama_produk := name, p_kategori_produk := c\<rparr>
                                    else r) (products d),
              stocks := map (\<lambda>s. if s_id_produk s = Some (p_id_produk p)
                                  then s\<lparr>s_nama_produk := name\<rparr> else s) (stocks d)\<rparr>)"
proof -
  let ?upd = "\<lambda>r. r\<lparr>p_nama_produk := name, p_kategori_produk := c\<rparr>"
  let ?d1 = "d\<lparr>products := map (\<lambda>r. if p_id r = p_id p then ?upd r else r) (products d)\<rparr>"
  let ?W = "\<lambda>s. s_id_produk s = Some (p_id_produk p)"
  have int: "int4 (Some (p_id p)) = Inr (Some (p_id p))"
    using wf_in_int4 [OF assms(1,2)] by (rule int4_fits)
  have one: "filter (\<lambda>r. p_id r = p_id p) (products d) = [p]"
    using assms(1,2) by (rule unique_product_by_id)
  have first: "update_products_by_id (b_nama_produk b) (b_kategori_produk b) (p_id p) d
                 = (Inr [?upd p], ?d1)"
    by (simp add: update_products_by_id_def update_products_def with_param_def int assms(3,4) one
        Let_def)
  have one1: "filter (\<lambda>r. p_id r = p_id p) (products ?d1) = [?upd p]"
    by (simp add: filter_map_same_id one)
  have second: "snd (update_stock_nama_produk (b_nama_produk b) (p_id p) ?d1)
                  = ?d1\<lparr>stocks := map (\<lambda>s. if ?W s then s\<lparr>s_nama_produk := name\<rparr> else s) (stocks d)\<rparr>"
    "\<exists>rows. fst (update_stock_nama_produk (b_nama_produk b) (p_id p) ?d1) = Inr rows"
    using one1
    by (auto simp: update_stock_nama_produk_def with_param_def int assms(3) Let_def map_none)
  obtain r2 d2 where eq2: "update_stock_nama_produk (b_nama_produk b) (p_id p) ?d1 = (r2, d2)"
    by (cases "update_stock_nama_produk (b_nama_produk b) (p_id p) ?d1")
  with second obtain rows where "r2 = Inr rows"
    "d2 = ?d1\<lparr>stocks := map (\<lambda>s. if ?W s then s\<lparr>s_nama_produk := name\<rparr> else s) (stocks d)\<rparr>"
    by auto
  with first eq2 show ?thesis
    by (simp add: ib_put_products_def row0_def)
qed

lemma ib_put_products_state_cases:
  assumes "wf_db d"
  shows "snd (ib_put_products i b d) = d
       \<or> (\<exists>p name c. p \<in> set (products d) \<and> p_id p = i
            \<and> snd (ib_put_products i b d) =
                d\<lparr>products := map (\<lambda>r. if p_id r = p_id p
                                    then r\<lparr>p_nama_produk := name, p_kategori_produk := c\<rparr>
                                    else r) (products d),
                  stocks := map (\<lambda>s. if s_id_produk s = Some (p_id_produk p)
                                  then s\<lparr>s_nama_produk := name\<rparr> else s) (stocks d)\<rparr>)"
proof (cases "filter (\<lambda>r. p_id r = i) (products d)")
  case Nil
  then have "snd (update_products_by_id (b_nama_produk b) (b_kategori_produk b) i d) = d"
    "\<forall>rows. fst (update_products_by_id (b_nama_produk b) (b_kategori_produk b) i d) = Inr rows
       \<longrightarrow> rows = []"
    by (auto simp: update_products_by_id_def update_products_def with_param_def
        split: sum.splits)
  then have "snd (ib_put_products i b d) = d"
    by (auto simp: ib_put_products_def split: prod.splits sum.splits)
  then show ?thesis ..
next
  case (Cons p ps)
  then have "p \<in> set (filter (\<lambda>r. p_id r = i) (products d))" by simp
  then have p: "p \<in> set (products d)" "p_id p = i" by simp_all
  show ?thesis
  proof (cases "varchar 100 (b_nama_produk b)")
    case (Inl e)
    then have "snd (ib_put_products i b d) = d"
      by (auto simp: ib_put_products_def update_products_by_id_def update_products_def
          with_param_def split: sum.splits)
    then show ?thesis ..
  next
    case n: (Inr n')
    show ?thesis
    proof (cases "varchar 100 (b_kategori_produk b)")
      case (Inl e)
      then have "snd (ib_put_products i b d) = d"
        by (auto simp: ib_put_products_def update_products_by_id_def update_products_def
            with_param_def n split: sum.splits)
      then show ?thesis ..
    next
      case c: (Inr c')
      show ?thesis
      proof (cases n')
        case None
        then have "snd (ib_put_products i b d) = d"
          by (auto simp: ib_put_products_def update_products_by_id_def update_products_def
              with_param_def n c split: sum.splits)
        then show ?thesis ..
      next
        case (Some name)
        from ib_put_products_propagates [OF assms p(1) n [unfolded Some] c] p
        show ?thesis by auto
      qed
    qed
  qed
qed

lemma sync_tables:
  assumes "stocks d' = stocks d" "set (products d) \<subseteq> set (products d')" "names_in_sync d"
  shows "names_in_sync d'"
  unfolding names_in_sync_iff
proof
  fix s assume "s \<in> set (stocks d')"
  with assms(1) have "s \<in> set (stocks d)" by simp
  with assms(3) obtain p where "p \<in> set (products d)"
    "s_id_produk s = Some (p_id_produk p)" "s_nama_produk s = p_nama_produk p"
    unfolding names_in_sync_iff by blast
  with assms(2) show "\<exists>p\<in>set (products d'). s_id_produk s = Some (p_id_produk p)
      \<and> s_nama_produk s = p_nama_produk p"
    by blast
qed

lemma insert_products_frame:
  "stocks (snd (insert_products k n c d)) = stocks d"
  "set (products d) \<subseteq> set (products (snd (insert_products k n c d)))"
  by (auto simp: insert_products_def with_param_def Let_def split: sum.splits option.splits)

lemma sync_insert_products: "names_in_sync d \<Longrightarrow> names_in_sync (snd (insert_products k n c d))"
  by (rule sync_tables [OF insert_products_frame])

lemma insert_employees_frame:
  "stocks (snd (insert_employees n p m d)) = stocks d"
  "products (snd (insert_employees n p m d)) = products d"
  by (auto simp: insert_employees_def with_param_def Let_def split: sum.splits option.splits)

lemma sync_insert_employees: "names_in_sync d \<Longrightarrow> names_in_sync (snd (insert_employees n p m d))"
  by (rule sync_tables [of _ d]) (simp_all add: insert_employees_frame)

lemma sync_update_employees:
  "names_in_sync d \<Longrightarrow> names_in_sync (snd (update_employees_by_id n p m i d))"
  by (rule sync_tables [of _ d]) (simp_all add: update_employees_by_id_frame)

lemma delete_employees_frame:
  "stocks (snd (delete_employees_by_id i d)) = stocks d"
  "products (snd (delete_employees_by_id i d)) = products d"
  by (auto simp: delete_employees_by_id_def with_param_def split: sum.splits)

lemma sync_delete_employees: "names_in_sync d \<Longrightarrow> names_in_sync (snd (delete_employees_by_id i d))"
  by (rule sync_tables [of _ d]) (simp_all add: delete_employees_frame)

lemma sync_delete_products:
  assumes "names_in_sync d"
  shows "names_in_sync (snd (delete_products W d))"
  unfolding names_in_sync_iff
proof
  fix s assume "s \<in> set (stocks (snd (delete_products W d)))"
  then have s: "s \<in> set (stocks d)"
    and keep: "\<forall>p\<in>set (filter W (products d)). s_id_produk s \<noteq> Some (p_id_produk p)"
    by (simp_all add: delete_products_def Let_def list_ex_iff)
  from assms s obtain p where p: "p \<in> set (products d)"
    "s_id_produk s = Some (p_id_produk p)" "s_nama_produk s = p_nama_produk p"
    unfolding names_in_sync_iff by blast
  with keep have "\<not> W p" by auto
  with p(1) have "p \<in> set (products (snd (delete_products W d)))"
    by (simp add: delete_products_def Let_def)
  with p(2,3) show "\<exists>p\<in>set (products (snd (delete_products W d))).
      s_id_produk s = Some (p_id_produk p) \<and> s_nama_produk s = p_nama_produk p"
    by blast
qed

lemma sync_delete_stock:
  assumes "names_in_sync d"
  shows "names_in_sync (snd (delete_stock W d))"
proof -
  have "set (stocks (snd (delete_stock W d))) \<subseteq> set (stocks d)"
    "products (snd (delete_stock W d)) = products d"
    by (auto simp: delete_stock_def)
  with assms show ?thesis
    unfolding names_in_sync_iff by (metis subsetD)
qed

lemma sync_same_names:
  assumes "names_in_sync d" "products d' = products d"
    and "\<forall>s'\<in>set (stocks d'). \<exists>s\<in>set (stocks d).
           s_id_produk s' = s_id_produk s \<and> s_nama_produk s' = s_nama_produk s"
  shows "names_in_sync d'"
  unfolding names_in_sync_iff
proof
  fix s' assume "s' \<in> set (stocks d')"
  with assms(3) obtain s where s: "s \<in> set (stocks d)"
    "s_id_produk s' = s_id_produk s" "s_nama_produk s' = s_nama_produk s" by blast
  with assms(1) obtain p where "p \<in> set (products d)"
    "s_id_produk s = Some (p_id_produk p)" "s_nama_produk s = p_nama_produk p"
    unfolding names_in_sync_iff by blast
  with s assms(2) show "\<exists>p\<in>set (products d'). s_id_produk s' = Some (p_id_produk p)
      \<and> s_nama_produk s' = p_nama_produk p"
    by auto
qed

lemma sync_update_stock_jumlah:
  assumes "names_in_sync d"
  shows "names_in_sync (snd (update_stock_jumlah q W d))"
proof (rule sync_same_names [OF assms])
  show "products (snd (update_stock_jumlah q W d)) = products d"
    by (rule update_stock_jumlah_frame)
  show "\<forall>s'\<in>set (stocks (snd (update_stock_jumlah q W d))). \<exists>s\<in>set (stocks d).
           s_id_produk s' = s_id_produk s \<and> s_nama_produk s' = s_nama_produk s"
    by (cases "int4 q") (auto simp: update_stock_jumlah_def with_param_def Let_def)
qed

lemma insert_stock_rows:
  "stocks (snd (insert_stock k n q d)) = stocks d
   \<or> (\<exists>row. stocks (snd (insert_stock k n q d)) = stocks d @ [row]
         \<and> varchar 50 k = Inr (s_id_produk row)
         \<and> varchar 100 n = Inr (Some (s_nama_produk row)))"
  by (auto simp: insert_stock_def with_param_def Let_def split: sum.splits option.splits)

lemma sync_insert_stock:
  assumes "wf_db d" "names_in_sync d" "p \<in> set (products d)"
  shows "names_in_sync (snd (insert_stock (Some (p_id_produk p)) (Some (p_nama_produk p)) q d))"
    (is "names_in_sync ?d'")
proof -
  from cols_product [OF assms(1,3)]
  have v: "varchar 50 (Some (p_id_produk p)) = Inr (Some (p_id_produk p))"
    "varchar 100 (Some (p_nama_produk p)) = Inr (Some (p_nama_produk p))"
    by (simp_all add: varchar_Some)
  have prods: "products ?d' = products d" by (rule insert_stock_tables)
  from insert_stock_rows [of "Some (p_id_produk p)" "Some (p_nama_produk p)" q d]
  consider "stocks ?d' = stocks d"
    | row where "stocks ?d' = stocks d @ [row]" "s_id_produk row = Some (p_id_produk p)"
        "s_nama_produk row = p_nama_produk p"
    unfolding v by auto
  then show ?thesis
  proof cases
    case 1
    with prods assms(2) show ?thesis by (simp add: names_in_sync_iff)
  next
    case 2
    show ?thesis
      unfolding names_in_sync_iff
    proof
      fix s assume "s \<in> set (stocks ?d')"
      with 2(1) consider "s \<in> set (stocks d)" | "s = row" by auto
      then show "\<exists>p\<in>set (products ?d'). s_id_produk s = Some (p_id_produk p)
          \<and> s_nama_produk s = p_nama_produk p"
      proof cases
        case 1
        with assms(2) show ?thesis unfolding names_in_sync_iff prods by blast
      next
        case 2
        with \<open>s_id_produk row = Some (p_id_produk p)\<close> \<open>s_nama_produk row = p_nama_produk p\<close>
          assms(3) show ?thesis unfolding prods by blast
      qed
    qed
  qed
qed

lemma sync_renamed:
  assumes "wf_db d" "names_in_sync d" "p \<in> set (products d)"
  shows "names_in_sync
           (d\<lparr>products := map (\<lambda>r. if p_id r = p_id p
                                    then r\<lparr>p_nama_produk := name, p_kategori_produk := c\<rparr>
                                    else r) (products d),
              stocks := map (\<lambda>s. if s_id_produk s = Some (p_id_produk p)
                                  then s\<lparr>s_nama_produk := name\<rparr> else s) (stocks d)\<rparr>)"
  unfolding names_in_sync_iff
proof
  let ?f = "\<lambda>r. if p_id r = p_id p then r\<lparr>p_nama_produk := name, p_kategori_produk := c\<rparr> else r"
  let ?g = "\<lambda>s. if s_id_produk s = Some (p_id_produk p) then s\<lparr>s_nama_produk := name\<rparr> else s"
  let ?d' = "d\<lparr>products := map ?f (products d), stocks := map ?g (stocks d)\<rparr>"
  fix s'
  assume "s' \<in> set (stocks ?d')"
  then obtain s where s: "s \<in> set (stocks d)" "s' = ?g s" by auto
  show "\<exists>p'\<in>set (products ?d'). s_id_produk s' = Some (p_id_produk p') \<and> s_nama_produk s' = p_nama_produk p'"
  proof (cases "s_id_produk s = Some (p_id_produk p)")
    case True
    have "?f p \<in> set (products ?d')" using assms(3) by simp
    moreover have "s_id_produk s' = Some (p_id_produk (?f p))" "s_nama_produk s' = p_nama_produk (?f p)"
      using True s(2) by simp_all
    ultimately show ?thesis by blast
  next
    case False
    from assms(2) s(1) obtain q where q: "q \<in> set (products d)"
      "s_id_produk s = Some (p_id_produk q)" "s_nama_produk s = p_nama_produk q"
      unfolding names_in_sync_iff by blast
    have "p_id q \<noteq> p_id p"
    proof
      assume "p_id q = p_id p"
      with q(1) have "q \<in> set (filter (\<lambda>r. p_id r = p_id p) (products d))" by simp
      then have "q = p" by (simp add: unique_product_by_id [OF assms(1,3)])
      with q(2) False show False by simp
    qed
    then have "?f q = q" by simp
    with q(1) have "q \<in> set (products ?d')" by force
    with q(2,3) False s(2) show ?thesis by auto
  qed
qed

lemma sync_ib_app:
  assumes "wf_db d" "names_in_sync d"
  shows "names_in_sync (snd (ib_app r d))"
proof (cases r)
  case (Ib_post_products b)
  with assms(2) show ?thesis by (simp add: handler_state sync_insert_products)
next
  case (Ib_put_products i b)
  with ib_put_products_state_cases [OF assms(1), of i b] assms show ?thesis
    by (auto simp: sync_renamed)
next
  case (Ib_delete_products i)
  with assms(2) show ?thesis
    by (simp add: handler_state delete_products_by_id_def with_param_def sync_delete_products
        split: sum.splits)
next
  case (Ib_post_stock b)
  have upd: "names_in_sync (snd (update_stock_by_id_produk q k d))" for q k
    using assms(2) by (simp add: update_stock_by_id_produk_def sync_update_stock_jumlah)
  have ins: "names_in_sync (snd (insert_stock (Some k) (Some nm) q d))"
    if "select_nama_produk k d = nm # nms" for k nm nms q
    using select_nama_produk_hd [OF that] sync_insert_stock [OF assms] by blast
  have "names_in_sync (snd (ib_post_stock b d))"
  proof (cases "sb_id_produk b")
    case None
    then show ?thesis using assms(2) by (simp add: ib_post_stock_def)
  next
    case k: (Some k)
    show ?thesis
    proof (cases "sb_jumlah_stok b")
      case None
      then show ?thesis using assms(2) k by (simp add: ib_post_stock_def)
    next
      case n: (Some n)
      show ?thesis
      proof (cases "select_nama_produk k d")
        case Nil
        then show ?thesis using assms(2) k n by (simp add: ib_post_stock_def)
      next
        case nm: (Cons nm nms)
        show ?thesis
        proof (cases "select_stock k d")
          case Nil
          with k n nm ins [OF nm, of "Some n"] assms(2) show ?thesis
            by (auto simp: ib_post_stock_def split: prod.splits sum.splits)
        next
          case (Cons x xs)
          obtain sid sq where x: "x = (sid, sq)" by (cases x)
          with Cons k n nm assms(2)
            upd [of "Some ((case sq of None \<Rightarrow> 0 | Some m \<Rightarrow> m) + n)" k]
          show ?thesis
            by (auto simp: ib_post_stock_def split: prod.splits sum.splits)
        qed
      qed
    qed
  qed
  with Ib_post_stock show ?thesis by simp
next
  case (Ib_put_stock i b)
  with assms(2) show ?thesis
    by (simp add: handler_state update_stock_by_id_def with_param_def sync_update_stock_jumlah
        split: sum.splits)
next
  case (Ib_delete_stock i)
  with assms(2) show ?thesis
    by (simp add: handler_state delete_stock_by_id_def with_param_def sync_delete_stock
        split: sum.splits)
next
  case (Ib_post_employees b)
  with assms(2) show ?thesis by (simp add: handler_state sync_insert_employees)
next
  case (Ib_put_employees i b)
  with assms(2) show ?thesis by (simp add: handler_state sync_update_employees)
next
  case (Ib_delete_employees i)
  with assms(2) show ?thesis by (simp add: handler_state sync_delete_employees)
qed (use assms(2) in \<open>simp_all add: ib_get_products_def ib_get_stock_def ib_get_employees_def\<close>)

lemma sync_ib_run:
  "wf_db d \<Longrightarrow> names_in_sync d \<Longrightarrow> names_in_sync (run (map Ib rs) d)"
proof (induction rs arbitrary: d)
  case Nil
  then show ?case by simp
next
  case (Cons r rs)
  from Cons.prems have "wf_db (snd (ib_app r d))" "names_in_sync (snd (ib_app r d))"
    by (simp_all add: wf_ib_app sync_ib_app)
  then show ?case using Cons.IH by simp
qed

text \<open>C10. Claim: the stock create of \<^verbatim>\<open>inventory_backend.js\<close> ignores a product name
  supplied by the client; a new stock row gets its name from the products row with its
  key, so that right after a stock create the stock row carries the product's current
  name. Proved: the answer and the state do not depend on the body's \<open>nama_produk\<close>;
  for a product \<open>p\<close> without stock row, in a state that satisfies the constraints of
  the schema, a create with a quantity within \<open>INTEGER\<close> (and an id left in the
  sequence) is answered 201 with a row of \<open>p\<close>'s key and name, which is appended to the
  stock table; and in every history served by \<^verbatim>\<open>inventory_backend.js\<close> from the empty
  tables each stock row carries the name of a product with its key.\<close>

theorem ib_post_stock_copies_name:
  assumes "wf_db d" "p \<in> set (products d)" "p_id_produk p \<noteq> []"
    and "Some (p_id_produk p) \<notin> set (stock_keys d)"
    and "sb_id_produk b = Some (p_id_produk p)" "sb_jumlah_stok b = Some n" "in_int4 n"
    and "stock_id_seq d < 2147483647"
    and "row = \<lparr>s_id = stock_id_seq d + 1, s_id_produk = Some (p_id_produk p),
                 s_nama_produk = p_nama_produk p, s_jumlah_stok = Some n\<rparr>"
  shows "ib_post_stock (b\<lparr>sb_nama_produk := x\<rparr>) d = ib_post_stock b d
       \<and> fst (ib_post_stock b d) = (201, Json_stock row)
       \<and> stocks (snd (ib_post_stock b d)) = stocks d @ [row]
       \<and> products (snd (ib_post_stock b d)) = products d
       \<and> names_in_sync (run (map Ib rs) createTables)"
proof -
  have name: "select_nama_produk (p_id_produk p) d = [p_nama_produk p]"
    by (simp add: select_nama_produk_def unique_product_by_key [OF assms(1,2)])
  have none: "select_stock (p_id_produk p) d = []"
    using no_row(4) [OF assms(4)] by (simp add: select_stock_def)
  have key: "p_id_produk p \<in> set (product_keys d)"
    using assms(2) by (simp add: product_keys_def)
  note len = cols_product [OF assms(1,2)]
  have ins: "insert_stock (Some (p_id_produk p)) (Some (p_nama_produk p)) (Some n) d =
      (Inr [row], d\<lparr>stock_id_seq := stock_id_seq d + 1, stocks := stocks d @ [row]\<rparr>)"
    unfolding assms(9)
    using len assms(7,8,4) key by (intro insert_stock_ok [OF assms(1)]) simp_all
  have res: "ib_post_stock b d =
      ((201, Json_stock row), d\<lparr>stock_id_seq := stock_id_seq d + 1, stocks := stocks d @ [row]\<rparr>)"
    by (simp add: ib_post_stock_def assms(3,5,6) name none ins row0_def)
  have sync: "names_in_sync (run (map Ib rs) createTables)"
    by (rule sync_ib_run [OF wf_createTables]) (simp add: names_in_sync_def createTables_def)
  from res sync show ?thesis by (simp add: ib_post_stock_ignores_name)
qed

theorem ib_post_stock_copies_name_witness:
  "fst (ib_post_stock
          \<lparr>sb_id_produk = Some ''P1'', sb_nama_produk = Some ''Other'', sb_jumlah_stok = Some 5\<rparr>
          (snd (ib_post_products widget createTables)))
     = (201, Json_stock \<lparr>s_id = 1, s_id_produk = Some ''P1'', s_nama_produk = ''Widget'',
                          s_jumlah_stok = Some 5\<rparr>)
   \<and> names_in_sync (run (map Ib [Ib_post_products widget, Ib_post_stock (units 5),
                                   Ib_put_products 1 gadget]) createTables)"
proof -
  let ?d = "snd (ib_post_products widget createTables)"
  have wf: "wf_db ?d"
    using wf_ib_app [OF wf_createTables, of "Ib_post_products widget"] by simp
  have st: "?d = \<lparr>products = [\<lparr>p_id = 1, p_id_produk = ''P1'', p_nama_produk = ''Widget'',
                                  p_kategori_produk = None\<rparr>],
                  stocks = [], employees = [], products_id_seq = 1, stock_id_seq = 0,
                  employees_id_seq = 0\<rparr>"
    by code_simp
  show ?thesis
    using ib_post_stock_copies_name [OF wf, of
        "\<lparr>p_id = 1, p_id_produk = ''P1'', p_nama_produk = ''Widget'', p_kategori_produk = None\<rparr>"
        "\<lparr>sb_id_produk = Some ''P1'', sb_nama_produk = Some ''Other'', sb_jumlah_stok = Some 5\<rparr>"
        5
        "\<lparr>s_id = 1, s_id_produk = Some ''P1'', s_nama_produk = ''Widget'', s_jumlah_stok = Some 5\<rparr>"
        "Some ''Other''"
        "[Ib_post_products widget, Ib_post_stock (units 5), Ib_put_products 1 gadget]"]
    by (simp add: st stock_keys_def in_int4_def)
qed

end
